theory Spec2Isabelle
  imports Main
begin

section \<open>The build script as a program over an explicit environment\<close>

text \<open>
  \<^verbatim>\<open>build.py\<close> is a sequence of calls into the operating system: path queries,
  file removal and creation, a prompt on standard input, and external processes.
  Each such call is an interaction, and a run is the list of its interactions in order,
  with its result: a raised exception, or a value. What the environment answers is a
  parameter, the \<open>world\<close>: the answer to the interaction number \<open>n\<close> of the run, for the
  request made there. For a deterministic script this is as general as an answer that
  depends on the whole history. The working directory and the environment variables are
  read but never changed by the script, so they do not depend on \<open>n\<close>.

  \<^verbatim>\<open>print\<close>, \<^verbatim>\<open>logging\<close> and \<^verbatim>\<open>warnings.warn\<close> calls are not
  recorded: they change nothing that the script reads or decides on. The functions
  \<^verbatim>\<open>list_submodules\<close> and \<^verbatim>\<open>update_submodules\<close> are never called from the command
  dispatch and are left out.
\<close>

subsection \<open>Exceptions, processes, events\<close>

type_synonym argv = "string list"

text \<open>
  The exceptions of a run. \<open>FileNotFoundError\<close>, \<open>RuntimeError\<close> and \<open>AttributeError\<close>
  are the ones \<^verbatim>\<open>build.py\<close> raises itself, with its message. \<open>CalledProcessError\<close>
  is raised by \<^verbatim>\<open>subprocess.check_call\<close> and \<^verbatim>\<open>check_output\<close>, with the exit
  status and the command. \<open>OSError\<close> stands for an exception that the operating system
  raises out of \<^verbatim>\<open>os\<close>, \<^verbatim>\<open>shutil\<close>, \<^verbatim>\<open>open\<close> or the start of a process, carrying
  the system's message. \<open>HelperError\<close> is an exception raised inside a helper of
  \<^verbatim>\<open>config.py\<close>.
\<close>

datatype error =
    CalledProcessError int argv
  | RuntimeError string
  | FileNotFoundError string
  | AttributeError string
  | KeyError string
  | EOFError
  | OSError string
  | HelperError string

datatype sp_call = CheckCall | CheckOutput | SpRun

text \<open>A child process either exits with a status and its standard output, or cannot be started.\<close>

datatype proc_result = Exited int string | NotStarted string

text \<open>
  One event per interaction, with the request and the answer. A \<open>string option\<close>
  answer of a mutating call is \<open>None\<close> on success and the system's message on failure.
  The \<open>Subprocess\<close> event holds the \<^verbatim>\<open>subprocess\<close> function used, the command, the
  \<^verbatim>\<open>cwd\<close> argument, the \<^verbatim>\<open>PATH\<close> of the \<^verbatim>\<open>env\<close> argument (\<open>None\<close> when no
  \<^verbatim>\<open>env\<close> is passed) and the outcome.
\<close>

datatype event =
    PathExists string bool
  | PathIsdir string bool
  | Input string "string option"
  | Rmtree string "string option"
  | Remove string "string option"
  | Makedirs string "string option"
  | WriteFile string string "string option"
  | ReadLines string "string + string list"
  | Subprocess sp_call argv "string option" "string option" proc_result
  | GitMaybeCheckout string string "string option" "bool option" "string option"
  | FilterListFile string string "string list option" "string + string"
  | LinuxDistribution string

record world =
  os_getcwd :: string
  os_environ_PATH :: "string option"
  os_path_abspath :: "string \<Rightarrow> string"
  os_path_exists :: "nat \<Rightarrow> string \<Rightarrow> bool"
  os_path_isdir :: "nat \<Rightarrow> string \<Rightarrow> bool"
  stdin_input :: "nat \<Rightarrow> string \<Rightarrow> string option"
  shutil_rmtree :: "nat \<Rightarrow> string \<Rightarrow> string option"
  os_remove :: "nat \<Rightarrow> string \<Rightarrow> string option"
  os_makedirs :: "nat \<Rightarrow> string \<Rightarrow> string option"
  open_write :: "nat \<Rightarrow> string \<Rightarrow> string \<Rightarrow> string option"
  open_readlines :: "nat \<Rightarrow> string \<Rightarrow> string + string list"
  subprocess :: "nat \<Rightarrow> argv \<Rightarrow> string option \<Rightarrow> string option \<Rightarrow> proc_result"
  git_maybe_checkout_result ::
    "nat \<Rightarrow> string \<Rightarrow> string \<Rightarrow> string option \<Rightarrow> bool option \<Rightarrow> string option"
  filter_list_file_result ::
    "nat \<Rightarrow> string \<Rightarrow> string \<Rightarrow> string list option \<Rightarrow> string + string"
  distro_linux_distribution :: "nat \<Rightarrow> string"

text \<open>
  The names \<^verbatim>\<open>build.py\<close> imports from \<^verbatim>\<open>config.py\<close>, which is not part of the
  sources at hand: the constants and the two pure helpers are parameters. The two helpers
  with effects, \<^verbatim>\<open>git_maybe_checkout\<close> and \<^verbatim>\<open>filter_list_file\<close>, are interactions
  answered by the world.
\<close>

record config_module =
  SRC_DIR :: string
  OUTPUT_BASE_DIR :: string
  GCLIENT_CONFIG :: string
  chromium_version :: string
  ungoogled_chromium_version :: string
  ungoogled_chromium_android_version :: string
  parse_gn_flags :: "string list \<Rightarrow> (string \<times> string) list"
  shell_expand_abs_path :: "string \<Rightarrow> string"

text \<open>The fields of \<^verbatim>\<open>Config\<close> that \<^verbatim>\<open>build.py\<close> reads.\<close>

record config =
  output_base_dir :: string
  shallow :: bool
  reset :: bool
  target_os :: string
  target_cpu :: string
  install_build_deps :: bool
  debug :: bool
  cc_wrapper :: "string option"
  gn_args :: "(string \<times> string) list"
  direct_download :: bool
  num_jobs :: nat

subsection \<open>Programs\<close>

text \<open>
  A program is run at a clock value \<open>n\<close>, the number of interactions made before it.
  It gives its result, an exception or a value, and the events it performs, in order.
\<close>

type_synonym 'a prog = "nat \<Rightarrow> (error + 'a) \<times> event list"

definition returns :: "'a \<Rightarrow> 'a prog" where
  "returns x = (\<lambda>n. (Inr x, []))"

definition raise :: "error \<Rightarrow> 'a prog" where
  "raise e = (\<lambda>n. (Inl e, []))"

text \<open>One statement after another: an exception of the first ends the sequence.\<close>

definition then_do :: "'a prog \<Rightarrow> ('a \<Rightarrow> 'b prog) \<Rightarrow> 'b prog" where
  "then_do p f = (\<lambda>n.
     case p n of
       (Inl e, es) \<Rightarrow> (Inl e, es)
     | (Inr x, es) \<Rightarrow> (case f x (n + length es) of (r, es') \<Rightarrow> (r, es @ es')))"

definition when_do :: "bool \<Rightarrow> unit prog \<Rightarrow> unit prog" where
  "when_do b p = (if b then p else returns ())"

text \<open>A call that answers a value and cannot fail.\<close>

definition query :: "(nat \<Rightarrow> 'a) \<Rightarrow> ('a \<Rightarrow> event) \<Rightarrow> 'a prog" where
  "query answer ev = (\<lambda>n. (Inr (answer n), [ev (answer n)]))"

text \<open>A call for its effect: \<open>None\<close> is success, \<open>Some m\<close> raises.\<close>

definition effect ::
    "(nat \<Rightarrow> string option) \<Rightarrow> (string option \<Rightarrow> event) \<Rightarrow> (string \<Rightarrow> error) \<Rightarrow> unit prog" where
  "effect answer ev err = (\<lambda>n.
     (case answer n of None \<Rightarrow> Inr () | Some m \<Rightarrow> Inl (err m), [ev (answer n)]))"

text \<open>A call that answers a value or raises.\<close>

definition attempt ::
    "(nat \<Rightarrow> string + 'a) \<Rightarrow> (string + 'a \<Rightarrow> event) \<Rightarrow> (string \<Rightarrow> error) \<Rightarrow> 'a prog" where
  "attempt answer ev err = (\<lambda>n.
     (case answer n of Inl m \<Rightarrow> Inl (err m) | Inr x \<Rightarrow> Inr x, [ev (answer n)]))"

definition path_exists :: "world \<Rightarrow> string \<Rightarrow> bool prog" where
  "path_exists w p = query (\<lambda>n. os_path_exists w n p) (PathExists p)"

definition path_isdir :: "world \<Rightarrow> string \<Rightarrow> bool prog" where
  "path_isdir w p = query (\<lambda>n. os_path_isdir w n p) (PathIsdir p)"

definition rmtree :: "world \<Rightarrow> string \<Rightarrow> unit prog" where
  "rmtree w p = effect (\<lambda>n. shutil_rmtree w n p) (Rmtree p) OSError"

definition remove_file :: "world \<Rightarrow> string \<Rightarrow> unit prog" where
  "remove_file w p = effect (\<lambda>n. os_remove w n p) (Remove p) OSError"

definition makedirs :: "world \<Rightarrow> string \<Rightarrow> unit prog" where
  "makedirs w p = effect (\<lambda>n. os_makedirs w n p) (Makedirs p) OSError"

definition write_file :: "world \<Rightarrow> string \<Rightarrow> string \<Rightarrow> unit prog" where
  "write_file w p c = effect (\<lambda>n. open_write w n p c) (WriteFile p c) OSError"

definition git_maybe_checkout ::
    "world \<Rightarrow> string \<Rightarrow> string \<Rightarrow> string option \<Rightarrow> bool option \<Rightarrow> unit prog" where
  "git_maybe_checkout w url dir branch rst =
     effect (\<lambda>n. git_maybe_checkout_result w n url dir branch rst)
       (GitMaybeCheckout url dir branch rst) HelperError"

definition readlines :: "world \<Rightarrow> string \<Rightarrow> string list prog" where
  "readlines w p = attempt (\<lambda>n. open_readlines w n p) (ReadLines p) OSError"

definition filter_list_file :: "world \<Rightarrow> string \<Rightarrow> string \<Rightarrow> string list option \<Rightarrow> string prog" where
  "filter_list_file w dir name excludes =
     attempt (\<lambda>n. filter_list_file_result w n dir name excludes)
       (FilterListFile dir name excludes) HelperError"

text \<open>\<^verbatim>\<open>input\<close> raises \<open>EOFError\<close> when standard input is at its end.\<close>

definition input :: "world \<Rightarrow> string \<Rightarrow> string prog" where
  "input w prompt = (\<lambda>n.
     (case stdin_input w n prompt of None \<Rightarrow> Inl EOFError | Some r \<Rightarrow> Inr r,
      [Input prompt (stdin_input w n prompt)]))"

text \<open>
  \<^verbatim>\<open>subprocess\<close>: the process is started and waited for; \<^verbatim>\<open>run\<close> hands back the
  exit status and the output whatever the status, \<^verbatim>\<open>check_call\<close> and
  \<^verbatim>\<open>check_output\<close> raise \<open>CalledProcessError\<close> on a status other than 0.
\<close>

definition spawn ::
    "world \<Rightarrow> sp_call \<Rightarrow> argv \<Rightarrow> string option \<Rightarrow> string option \<Rightarrow> (int \<times> string) prog" where
  "spawn w k cmd cwd env = (\<lambda>n.
     (case subprocess w n cmd cwd env of
        NotStarted m \<Rightarrow> Inl (OSError m)
      | Exited rc out \<Rightarrow> Inr (rc, out),
      [Subprocess k cmd cwd env (subprocess w n cmd cwd env)]))"

definition sp_run :: "world \<Rightarrow> argv \<Rightarrow> string option \<Rightarrow> string option \<Rightarrow> (int \<times> string) prog" where
  "sp_run w cmd cwd env = spawn w SpRun cmd cwd env"

definition check_call :: "world \<Rightarrow> argv \<Rightarrow> string option \<Rightarrow> string option \<Rightarrow> unit prog" where
  "check_call w cmd cwd env =
     then_do (spawn w CheckCall cmd cwd env)
       (\<lambda>r. if fst r \<noteq> 0 then raise (CalledProcessError (fst r) cmd) else returns ())"

definition check_output :: "world \<Rightarrow> argv \<Rightarrow> string option \<Rightarrow> string option \<Rightarrow> string prog" where
  "check_output w cmd cwd env =
     then_do (spawn w CheckOutput cmd cwd env)
       (\<lambda>r. if fst r \<noteq> 0 then raise (CalledProcessError (fst r) cmd) else returns (snd r))"

subsection \<open>Strings and paths\<close>

text \<open>\<^verbatim>\<open>os.path.join\<close> on a POSIX system.\<close>

definition join2 :: "string \<Rightarrow> string \<Rightarrow> string" where
  "join2 path b =
     (if (case b of [] \<Rightarrow> False | c # _ \<Rightarrow> c = CHR ''/'') then b
      else if path = [] \<or> last path = CHR ''/'' then path @ b
      else path @ ''/'' @ b)"

definition os_path_join :: "string \<Rightarrow> string list \<Rightarrow> string" where
  "os_path_join a ps = foldl join2 a ps"

text \<open>
  \<^verbatim>\<open>str.strip()\<close>, on the ASCII range: tab, line feed, vertical tab, form feed,
  carriage return, the four separators 0x1C to 0x1F and the space are white space.
\<close>

definition isspace :: "char \<Rightarrow> bool" where
  "isspace c = ((of_char c :: nat) \<in> {9, 10, 11, 12, 13, 28, 29, 30, 31, 32})"

definition strip :: "string \<Rightarrow> string" where
  "strip s = rev (dropWhile isspace (rev (dropWhile isspace s)))"

text \<open>\<^verbatim>\<open>str.lower()\<close>, on the ASCII range.\<close>

definition lower :: "string \<Rightarrow> string" where
  "lower s = map (\<lambda>c. if 65 \<le> (of_char c :: nat) \<and> (of_char c :: nat) \<le> 90
                       then char_of (of_char c + (32 :: nat)) else c) s"

text \<open>\<^verbatim>\<open>str(n)\<close> of a natural number.\<close>

fun str_nat :: "nat \<Rightarrow> string" where
  "str_nat n = (if n < 10 then [char_of (48 + n)]
                else str_nat (n div 10) @ [char_of (48 + n mod 10)])"

declare str_nat.simps [simp del]

text \<open>
  \<^verbatim>\<open>str.replace(old, new)\<close>: every occurrence of \<open>old\<close>, left to right and without
  overlap. With an empty \<open>old\<close>, \<open>new\<close> goes before every character and at the end.
\<close>

fun replace_from :: "string \<Rightarrow> string \<Rightarrow> nat \<Rightarrow> string \<Rightarrow> string" where
  "replace_from old new skip [] = []"
| "replace_from old new skip (c # s) =
     (if 0 < skip then replace_from old new (skip - 1) s
      else if take (length old) (c # s) = old
        then new @ replace_from old new (length old - 1) s
      else c # replace_from old new 0 s)"

definition str_replace :: "string \<Rightarrow> string \<Rightarrow> string \<Rightarrow> string" where
  "str_replace s old new =
     (if old = [] then new @ concat (map (\<lambda>c. c # new) s)
      else replace_from old new 0 s)"

definition squote :: "string \<Rightarrow> string" where
  "squote s = CHR 0x27 # s @ [CHR 0x27]"

definition dquote :: "string \<Rightarrow> string" where
  "dquote s = CHR 0x22 # s @ [CHR 0x22]"

subsection \<open>Dictionaries\<close>

text \<open>
  A Python \<^verbatim>\<open>dict\<close> keeps its keys in insertion order, each key once: it is the
  list of its items. Assigning to a key that is present replaces the value in place,
  a new key goes to the end. \<^verbatim>\<open>update\<close> assigns the items of its argument in order.
\<close>

type_synonym pydict = "(string \<times> string) list"

fun dict_set :: "string \<Rightarrow> string \<Rightarrow> pydict \<Rightarrow> pydict" where
  "dict_set k v [] = [(k, v)]"
| "dict_set k v (p # ps) = (if fst p = k then (k, v) # ps else p # dict_set k v ps)"

fun dict_update :: "pydict \<Rightarrow> pydict \<Rightarrow> pydict" where
  "dict_update d [] = d"
| "dict_update d ((k, v) # u) = dict_update (dict_set k v d) u"

subsection \<open>clean\<close>

definition clean_prompt :: "world \<Rightarrow> config \<Rightarrow> string" where
  "clean_prompt w cfg =
     ''WARNING: you are about to remove an output directory which is different from the default location. ''
     @ ''Are you sure you want ot remove '' @ os_path_abspath w (output_base_dir cfg) @ ''? [y/n]: ''"

definition clean :: "config_module \<Rightarrow> world \<Rightarrow> config \<Rightarrow> unit prog" where
  "clean M w cfg =
     then_do (path_exists w (output_base_dir cfg)) (\<lambda>ex.
       if ex then
         if shell_expand_abs_path M (output_base_dir cfg)
              \<noteq> shell_expand_abs_path M (OUTPUT_BASE_DIR M)
         then then_do (input w (clean_prompt w cfg)) (\<lambda>reply.
                if reply \<noteq> ''y'' then returns ()
                else check_call w [''rm'', ''-rf'', output_base_dir cfg] None None)
         else check_call w [''rm'', ''-rf'', output_base_dir cfg] None None
       else returns ())"

subsection \<open>init\<close>

definition clone_cmd :: "config \<Rightarrow> argv" where
  "clone_cmd cfg = [''git'', ''clone''] @ (if shallow cfg then [''--depth'', ''1'', ''--no-tags''] else [])"

definition init :: "config_module \<Rightarrow> world \<Rightarrow> config \<Rightarrow> unit prog" where
  "init M w cfg =
     then_do (path_exists w ''depot_tools'') (\<lambda>ex.
     then_do (when_do ex (rmtree w ''depot_tools'')) (\<lambda>_.
     then_do (git_maybe_checkout w
                ''https://chromium.googlesource.com/chromium/tools/depot_tools.git''
                ''depot_tools'' None None) (\<lambda>_.
     then_do (path_exists w (SRC_DIR M)) (\<lambda>ex_src.
     then_do (when_do ex_src (rmtree w (SRC_DIR M))) (\<lambda>_.
     check_call w (clone_cmd cfg @
         [''https://chromium.googlesource.com/chromium/src.git'', ''-b'', chromium_version M])
       None None)))))"

subsection \<open>set_revision\<close>

definition git_in_src :: "config_module \<Rightarrow> world \<Rightarrow> argv \<Rightarrow> unit prog" where
  "git_in_src M w args = check_call w (''git'' # args) (Some (SRC_DIR M)) None"

definition update_to_version :: "config_module \<Rightarrow> world \<Rightarrow> config \<Rightarrow> unit prog" where
  "update_to_version M w cfg =
     then_do (when_do (reset cfg)
                (then_do (git_in_src M w [''clean'', ''-fxd''])
                   (\<lambda>_. git_in_src M w [''reset'', ''--hard'']))) (\<lambda>_.
     then_do (git_in_src M w [''pull'']) (\<lambda>_.
     git_in_src M w [''checkout'', chromium_version M]))"

definition set_revision :: "config_module \<Rightarrow> world \<Rightarrow> config \<Rightarrow> string prog" where
  "set_revision M w cfg =
     then_do (check_output w [''git'', ''rev-parse'', ''HEAD''] (Some (SRC_DIR M)) None) (\<lambda>out.
     if shallow cfg then returns (strip out)
     else
       then_do (check_output w [''git'', ''rev-parse'', ''--is-shallow-repository'']
                  (Some (SRC_DIR M)) None) (\<lambda>sh.
       if strip sh = ''true''
       then raise (RuntimeError ''Cannot set revision on a shallow repository!'')
       else
         then_do (sp_run w [''git'', ''describe'', ''--tags'', ''--exact-match'', strip out]
                    (Some (SRC_DIR M)) None) (\<lambda>tag.
         then_do (when_do (fst tag \<noteq> 0 \<or> strip (snd tag) \<noteq> chromium_version M)
                    (update_to_version M w cfg)) (\<lambda>_.
         then_do (check_output w [''git'', ''rev-parse'', ''HEAD''] (Some (SRC_DIR M)) None)
           (\<lambda>new_rev. returns (strip new_rev))))))"

subsection \<open>sync\<close>

text \<open>
  The test \<^verbatim>\<open>not os.path.exists(p) or not os.path.isdir(p)\<close>: \<^verbatim>\<open>isdir\<close> is asked
  only when \<^verbatim>\<open>exists\<close> has answered true.
\<close>

definition depot_tools_missing :: "world \<Rightarrow> string \<Rightarrow> bool prog" where
  "depot_tools_missing w p =
     then_do (path_exists w p) (\<lambda>ex.
       if \<not> ex then returns True
       else then_do (path_isdir w p) (\<lambda>d. returns (\<not> d)))"

text \<open>
  \<^verbatim>\<open>_env = os.environ.copy(); _env["PATH"] = depot_tools_path + ":" + _env["PATH"]\<close>:
  the new \<^verbatim>\<open>PATH\<close>, or \<open>KeyError\<close> when the variable is not set.
\<close>

definition depot_tools_env :: "world \<Rightarrow> string \<Rightarrow> string prog" where
  "depot_tools_env w p =
     (case os_environ_PATH w of
        None \<Rightarrow> raise (KeyError ''PATH'')
      | Some path \<Rightarrow> returns (p @ '':'' @ path))"

definition gclient_content :: "config_module \<Rightarrow> config \<Rightarrow> string" where
  "gclient_content M cfg = str_replace (GCLIENT_CONFIG M) ''@@TARGET_OS@@'' (squote (target_os cfg))"

definition sync_extra_args :: "config \<Rightarrow> string \<Rightarrow> argv" where
  "sync_extra_args cfg chromium_ref =
     (if reset cfg
      then [''--revision'', ''src@'' @ chromium_ref, ''--force'', ''--upstream'', ''--reset'']
      else [])
     @ (if shallow cfg then [''--shallow''] else [''--with_tags'', ''--with_branch_heads''])"

definition install_deps :: "config_module \<Rightarrow> world \<Rightarrow> config \<Rightarrow> unit prog" where
  "install_deps M w cfg =
     (let script = (if target_os cfg = ''android'' then ''install-build-deps-android.sh''
                    else ''install-build-deps.sh'')
      in then_do (query (distro_linux_distribution w) LinuxDistribution) (\<lambda>name.
           if lower name = ''debian'' \<or> lower name = ''ubuntu''
           then check_call w [''sudo'', os_path_join (SRC_DIR M) [''build'', script]] None None
           else returns ()))"

definition sync :: "config_module \<Rightarrow> world \<Rightarrow> config \<Rightarrow> unit prog" where
  "sync M w cfg =
     (let depot_tools_path = os_path_join (os_getcwd w) [''depot_tools''] in
      then_do (depot_tools_missing w depot_tools_path) (\<lambda>missing.
      if missing then raise (FileNotFoundError ''Cannot find depot_tools!'')
      else
        then_do (depot_tools_env w depot_tools_path) (\<lambda>env.
        then_do (set_revision M w cfg) (\<lambda>chromium_ref.
        then_do (write_file w ''.gclient'' (gclient_content M cfg)) (\<lambda>_.
        then_do (check_call w ([''gclient'', ''sync'', ''--nohooks''] @ sync_extra_args cfg chromium_ref)
                   None (Some env)) (\<lambda>_.
        then_do (check_call w [''gclient'', ''runhooks''] None (Some env)) (\<lambda>_.
        when_do (install_build_deps cfg) (install_deps M w cfg))))))))"

subsection \<open>prepare\<close>

definition remove_cache :: "world \<Rightarrow> unit prog" where
  "remove_cache w =
     then_do (path_exists w ''domsubcache.tar.gz'')
       (\<lambda>ex. when_do ex (remove_file w ''domsubcache.tar.gz''))"

definition utils_dir :: string where
  "utils_dir = os_path_join ''ungoogled-chromium'' [''utils'']"

definition prune_binaries ::
    "world \<Rightarrow> string \<Rightarrow> string \<Rightarrow> string \<Rightarrow> string list option \<Rightarrow> unit prog" where
  "prune_binaries w tree dir name excludes =
     then_do (filter_list_file w dir name excludes) (\<lambda>lst.
     then_do (sp_run w [os_path_join utils_dir [''prune_binaries.py''], tree, lst] None None)
       (\<lambda>_. returns ()))"

definition apply_patches :: "world \<Rightarrow> string \<Rightarrow> unit prog" where
  "apply_patches w dir =
     check_call w [os_path_join utils_dir [''patches.py''], ''apply'', ''src'',
                   os_path_join dir [''patches'']] None None"

definition domain_substitution :: "world \<Rightarrow> string \<Rightarrow> string \<Rightarrow> unit prog" where
  "domain_substitution w dir name =
     then_do (filter_list_file w dir name None) (\<lambda>lst.
     check_call w [os_path_join utils_dir [''domain_substitution.py''], ''apply'',
                   ''-r'', os_path_join ''ungoogled-chromium'' [''domain_regex.list''],
                   ''-f'', lst, ''-c'', ''domsubcache.tar.gz'', ''src''] None None)"

definition prepare_android_checkout :: "config_module \<Rightarrow> world \<Rightarrow> unit prog" where
  "prepare_android_checkout M w =
     then_do (git_maybe_checkout w
                ''https://github.com/ungoogled-software/ungoogled-chromium-android.git''
                ''ungoogled-chromium-android''
                (Some (ungoogled_chromium_android_version M)) (Some True)) (\<lambda>_.
     check_call w [''patch'', ''-p1'', ''--ignore-whitespace'', ''-i'',
                   os_path_join ''ungoogled-chromium-android''
                     [''patches'', ''Other'', ''ungoogled-main-repo-fix.patch''],
                   ''--no-backup-if-mismatch''] None None)"

definition prepare_android_scripts :: "world \<Rightarrow> unit prog" where
  "prepare_android_scripts w =
     then_do (remove_cache w) (\<lambda>_.
     then_do (prune_binaries w ''src'' ''ungoogled-chromium-android'' ''pruning_2.list'' None) (\<lambda>_.
     then_do (apply_patches w ''ungoogled-chromium-android'') (\<lambda>_.
     domain_substitution w ''ungoogled-chromium-android'' ''domain_sub_2.list'')))"

definition prepare :: "config_module \<Rightarrow> world \<Rightarrow> config \<Rightarrow> unit prog" where
  "prepare M w cfg =
     then_do (git_maybe_checkout w ''https://github.com/Eloston/ungoogled-chromium.git''
                ''ungoogled-chromium'' (Some (ungoogled_chromium_version M)) (Some True)) (\<lambda>_.
     then_do (when_do (target_os cfg = ''android'') (prepare_android_checkout M w)) (\<lambda>_.
     then_do (remove_cache w) (\<lambda>_.
     then_do (prune_binaries w (SRC_DIR M) ''ungoogled-chromium'' ''pruning.list''
                (Some [''buildtools/linux64/gn''])) (\<lambda>_.
     then_do (apply_patches w ''ungoogled-chromium'') (\<lambda>_.
     then_do (domain_substitution w ''ungoogled-chromium'' ''domain_substitution.list'') (\<lambda>_.
     when_do (target_os cfg = ''android'') (prepare_android_scripts w)))))))"

subsection \<open>build\<close>

definition common_flags :: "config \<Rightarrow> pydict" where
  "common_flags cfg =
     [(''is_component_build'', ''false''),
      (''is_unsafe_developer_build'', ''false''),
      (''proprietary_codecs'', ''true''),
      (''ffmpeg_branding'', dquote ''Chrome''),
      (''use_gnome_keyring'', ''false''),
      (''exclude_unwind_tables'', ''false''),
      (''target_os'', dquote (target_os cfg)),
      (''target_cpu'', dquote (target_cpu cfg))]"

definition debug_flags :: "config \<Rightarrow> pydict" where
  "debug_flags cfg =
     (if debug cfg then
        [(''is_debug'', ''true''),
         (''is_unsafe_developer_build'', ''true''),
         (''is_official_build'', ''false''),
         (''symbol_level'', ''1''),
         (''blink_symbol_level'', ''1'')]
      else
        [(''is_debug'', ''false''),
         (''is_unsafe_developer_build'', ''false''),
         (''is_official_build'', ''true''),
         (''symbol_level'', ''0''),
         (''blink_symbol_level'', ''0'')])"

definition cc_wrapper_flags :: "config \<Rightarrow> pydict" where
  "cc_wrapper_flags cfg =
     (case cc_wrapper cfg of None \<Rightarrow> [] | Some c \<Rightarrow> [(''cc_wrapper'', dquote c)])"

text \<open>
  The dictionary \<^verbatim>\<open>gn_args\<close> of \<^verbatim>\<open>build\<close> after its last \<^verbatim>\<open>update\<close>, from the
  lines read from \<^verbatim>\<open>flags.gn\<close>. Without a \<^verbatim>\<open>cc_wrapper\<close> the source skips that
  update, which is the update by no items.
\<close>

definition build_gn_args :: "config_module \<Rightarrow> config \<Rightarrow> string list \<Rightarrow> pydict" where
  "build_gn_args M cfg flags =
     dict_update
       (dict_update
          (dict_update
             (dict_update (parse_gn_flags M flags) (common_flags cfg))
             (debug_flags cfg))
          (cc_wrapper_flags cfg))
       (gn_args cfg)"

definition gn_args_str :: "config \<Rightarrow> pydict \<Rightarrow> string" where
  "gn_args_str cfg d =
     (let delimiter = (if direct_download cfg then '' '' else [CHR 0x0A])
      in concat (map (\<lambda>(k, v). k @ ''='' @ v @ delimiter) d))"

definition output_subfolder :: "config \<Rightarrow> string" where
  "output_subfolder cfg =
     (if \<not> debug cfg then ''Release'' else ''Debug'') @ ''_'' @ target_os cfg @ ''_'' @ target_cpu cfg"

definition output_path :: "config \<Rightarrow> string" where
  "output_path cfg = os_path_join (output_base_dir cfg) [output_subfolder cfg]"

definition output_src_path :: "config_module \<Rightarrow> config \<Rightarrow> string" where
  "output_src_path M cfg = os_path_join (SRC_DIR M) [output_base_dir cfg, output_subfolder cfg]"

definition make_output_folder :: "config_module \<Rightarrow> world \<Rightarrow> config \<Rightarrow> unit prog" where
  "make_output_folder M w cfg =
     then_do (path_exists w (output_src_path M cfg)) (\<lambda>ex.
     then_do (if ex
              then then_do (path_isdir w (output_src_path M cfg))
                     (\<lambda>d. when_do (\<not> d) (remove_file w (output_src_path M cfg)))
              else returns ()) (\<lambda>_.
     makedirs w (output_src_path M cfg)))"

definition run_gn :: "config_module \<Rightarrow> world \<Rightarrow> config \<Rightarrow> string \<Rightarrow> string \<Rightarrow> unit prog" where
  "run_gn M w cfg args env =
     (if direct_download cfg then
        check_call w [os_path_join (SRC_DIR M) [''tools'', ''gn'', ''bootstrap'', ''bootstrap.py''],
                      ''--gn-gen-args='' @ squote args] None None
      else
        then_do (write_file w (os_path_join (output_src_path M cfg) [''args.gn'']) args) (\<lambda>_.
        check_call w [''gn'', ''gen'', output_path cfg, ''--fail-on-unused-args'']
          (Some (SRC_DIR M)) (Some env)))"

definition autoninja :: "config_module \<Rightarrow> world \<Rightarrow> config \<Rightarrow> string \<Rightarrow> string list \<Rightarrow> unit prog" where
  "autoninja M w cfg env targets =
     check_call w ([''autoninja'', ''-j'', str_nat (num_jobs cfg), ''-C'', output_path cfg] @ targets)
       (Some (SRC_DIR M)) (Some env)"

definition build :: "config_module \<Rightarrow> world \<Rightarrow> config \<Rightarrow> unit prog" where
  "build M w cfg =
     then_do (make_output_folder M w cfg) (\<lambda>_.
     then_do (readlines w (os_path_join ''ungoogled-chromium'' [''flags.gn''])) (\<lambda>flags.
     (let args = gn_args_str cfg (build_gn_args M cfg flags);
          depot_tools_path = os_path_join (os_getcwd w) [''depot_tools'']
      in
      then_do (depot_tools_missing w depot_tools_path) (\<lambda>missing.
      if missing then raise (FileNotFoundError ''Cannot find depot_tools!'')
      else
        then_do (depot_tools_env w depot_tools_path) (\<lambda>env.
        then_do (run_gn M w cfg args env) (\<lambda>_.
        if target_os cfg = ''linux''
        then autoninja M w cfg env [''chrome'', ''chrome_sandbox'', ''chromedriver'']
        else if target_os cfg = ''android''
        then autoninja M w cfg env [''chrome_modern_public_bundle'']
        else raise (AttributeError ''Target OS not supported'')))))))"

subsection \<open>The command dispatch and the exit status\<close>

text \<open>
  The dispatch at the end of the file, from the parsed command and the \<^verbatim>\<open>Config\<close>.
  No branch catches an exception and nothing calls \<^verbatim>\<open>sys.exit\<close>.
\<close>

definition main :: "config_module \<Rightarrow> world \<Rightarrow> string \<Rightarrow> config \<Rightarrow> unit prog" where
  "main M w command cfg =
     (if command = ''init'' then init M w cfg
      else if command = ''sync'' then sync M w cfg
      else if command = ''prepare'' then prepare M w cfg
      else if command = ''build'' then build M w cfg
      else if command = ''clean'' then clean M w cfg
      else returns ())"

text \<open>
  The exit status of the Python process: 0 when the script runs to its end, 1 when an
  exception leaves it uncaught.
\<close>

definition exit_status :: "error + unit \<Rightarrow> int" where
  "exit_status r = (case r of Inr _ \<Rightarrow> 0 | Inl _ \<Rightarrow> 1)"

section \<open>Reading traces\<close>

text \<open>
  The failure a \<^verbatim>\<open>check_call\<close> or \<^verbatim>\<open>check_output\<close> event stands for: the exit
  status and the command, when the status is not 0. A \<^verbatim>\<open>run\<close> event is no failure,
  whatever its status.
\<close>

fun failure_of :: "event \<Rightarrow> (int \<times> argv) option" where
  "failure_of (Subprocess k cmd cwd env (Exited rc out)) =
     (if k \<noteq> SpRun \<and> rc \<noteq> 0 then Some (rc, cmd) else None)"
| "failure_of _ = None"

text \<open>The command of an external process event.\<close>

fun command_of :: "event \<Rightarrow> argv option" where
  "command_of (Subprocess k cmd cwd env r) = Some cmd"
| "command_of _ = None"

text \<open>The program an event runs: the first word of its command.\<close>

definition program_of :: "event \<Rightarrow> string option" where
  "program_of e = (case command_of e of Some (c # args) \<Rightarrow> Some c | _ \<Rightarrow> None)"

text \<open>
  \<open>after_some P Q es\<close>: reading \<open>es\<close> from the start, no event with \<open>Q\<close> comes
  until an event with \<open>P\<close> has come.
\<close>

fun after_some :: "(event \<Rightarrow> bool) \<Rightarrow> (event \<Rightarrow> bool) \<Rightarrow> event list \<Rightarrow> bool" where
  "after_some P Q [] = True"
| "after_some P Q (e # es) = (P e \<or> (\<not> Q e \<and> after_some P Q es))"

text \<open>
  \<open>fails_fast r es\<close>: a failed checked process is the last event of the run and the
  run ends in its \<open>CalledProcessError\<close>; and a run without one ends in no
  \<open>CalledProcessError\<close>.
\<close>

fun fails_fast :: "error + 'a \<Rightarrow> event list \<Rightarrow> bool" where
  "fails_fast r [] = (case r of Inl (CalledProcessError rc cmd) \<Rightarrow> False | _ \<Rightarrow> True)"
| "fails_fast r (e # es) =
     (case failure_of e of
        None \<Rightarrow> fails_fast r es
      | Some (rc, cmd) \<Rightarrow> es = [] \<and> r = Inl (CalledProcessError rc cmd))"

text \<open>\<open>emits p n Q\<close>: run at the clock value \<open>n\<close>, the program \<open>p\<close> gives a result and events with \<open>Q\<close>.\<close>

definition emits :: "'a prog \<Rightarrow> nat \<Rightarrow> (error + 'a \<Rightarrow> event list \<Rightarrow> bool) \<Rightarrow> bool" where
  "emits p n Q = Q (fst (p n)) (snd (p n))"

text \<open>
  \<open>removes_found es\<close>: every answer that a path exists is followed at once by the
  \<^verbatim>\<open>rmtree\<close> of that path.
\<close>

fun removes_found :: "event list \<Rightarrow> bool" where
  "removes_found [] = True"
| "removes_found (PathExists p True # es) =
     ((case es of Rmtree q res # es' \<Rightarrow> q = p | _ \<Rightarrow> False) \<and> removes_found es)"
| "removes_found (e # es) = removes_found es"

subsection \<open>The events of set_revision\<close>

text \<open>The commands that change the checked out revision or the work tree.\<close>

definition is_revision_change :: "event \<Rightarrow> bool" where
  "is_revision_change e =
     (case command_of e of
        Some (g # c # args) \<Rightarrow> g = ''git'' \<and> c \<in> {''clean'', ''reset'', ''pull'', ''checkout''}
      | _ \<Rightarrow> False)"

definition is_shallow_query :: "event \<Rightarrow> bool" where
  "is_shallow_query e = (command_of e = Some [''git'', ''rev-parse'', ''--is-shallow-repository''])"

text \<open>The answer of a shallowness query that ran to its end with status 0.\<close>

fun shallow_answer :: "event \<Rightarrow> string option" where
  "shallow_answer (Subprocess k cmd cwd env (Exited rc out)) =
     (if cmd = [''git'', ''rev-parse'', ''--is-shallow-repository''] \<and> rc = 0
      then Some (strip out) else None)"
| "shallow_answer _ = None"

subsection \<open>The events of prepare\<close>

definition scripts :: "string list" where
  "scripts = [''prune_binaries.py'', ''patches.py'', ''domain_substitution.py'']"

text \<open>The script of \<^verbatim>\<open>ungoogled-chromium/utils\<close> that an event runs, if it runs one.\<close>

definition script_of :: "event \<Rightarrow> string option" where
  "script_of e =
     (case program_of e of
        None \<Rightarrow> None
      | Some c \<Rightarrow> find (\<lambda>s. c = os_path_join utils_dir [s]) scripts)"

text \<open>
  The list file in the command of the pruning script (its last argument) and of the
  domain substitution script (the argument after \<^verbatim>\<open>-f\<close>).
\<close>

fun list_file_arg :: "argv \<Rightarrow> string option" where
  "list_file_arg [c, tree, lst] =
     (if c = os_path_join utils_dir [''prune_binaries.py''] then Some lst else None)"
| "list_file_arg [c, a, r, rx, f, lst, cf, cache, tree] =
     (if c = os_path_join utils_dir [''domain_substitution.py''] \<and> f = ''-f'' then Some lst else None)"
| "list_file_arg cmd = None"

text \<open>The file a successful \<^verbatim>\<open>filter_list_file\<close> event answered.\<close>

fun filtered_file :: "event option \<Rightarrow> string option" where
  "filtered_file (Some (FilterListFile dir name excludes (Inr f))) = Some f"
| "filtered_file prev = None"

text \<open>
  \<open>each_after R p2 p1 es\<close>: every event of \<open>es\<close> stands in \<open>R\<close> with the two events
  before it, where \<open>p1\<close> is the event right before \<open>es\<close> and \<open>p2\<close> the one before that
  (\<open>None\<close> where the run starts).
\<close>

fun each_after ::
    "(event option \<Rightarrow> event option \<Rightarrow> event \<Rightarrow> bool) \<Rightarrow> event option \<Rightarrow> event option \<Rightarrow> event list \<Rightarrow> bool" where
  "each_after R p2 p1 [] = True"
| "each_after R p2 p1 (e # es) = (R p2 p1 e \<and> each_after R p1 (Some e) es)"

text \<open>
  What \<^verbatim>\<open>prepare\<close> does before a script: two events before a pruning event, the cache
  file was found absent or was removed; right before a pruning or a domain substitution
  event, \<^verbatim>\<open>filter_list_file\<close> succeeded, and the file it answered is the list file of
  the command.
\<close>

definition prepare_step :: "event option \<Rightarrow> event option \<Rightarrow> event \<Rightarrow> bool" where
  "prepare_step p2 p1 e =
     ((script_of e = Some ''prune_binaries.py'' \<longrightarrow>
         p2 = Some (PathExists ''domsubcache.tar.gz'' False) \<or>
         p2 = Some (Remove ''domsubcache.tar.gz'' None)) \<and>
      (script_of e = Some ''prune_binaries.py'' \<or> script_of e = Some ''domain_substitution.py'' \<longrightarrow>
         filtered_file p1 \<noteq> None \<and>
         (case command_of e of None \<Rightarrow> False | Some cmd \<Rightarrow> list_file_arg cmd = filtered_file p1)))"

text \<open>The scripts a run starts, in order.\<close>

definition scripts_run :: "event list \<Rightarrow> string list" where
  "scripts_run t = List.map_filter script_of t"

subsection \<open>The events of build\<close>

definition is_generator :: "config_module \<Rightarrow> event \<Rightarrow> bool" where
  "is_generator M e =
     (program_of e = Some ''gn'' \<or>
      program_of e = Some (os_path_join (SRC_DIR M) [''tools'', ''gn'', ''bootstrap'', ''bootstrap.py'']))"

definition is_build_driver :: "event \<Rightarrow> bool" where
  "is_build_driver e = (program_of e = Some ''autoninja'')"

fun read_ok :: "event \<Rightarrow> bool" where
  "read_ok (ReadLines p (Inr ls)) = True"
| "read_ok e = False"


section \<open>An example installation\<close>

text \<open>
  Values for the parameters, to run the model on: a \<^verbatim>\<open>config.py\<close> with a small
  manifest template and a parser of \<^verbatim>\<open>key=value\<close> lines, a release configuration for
  Linux, and a world in which every path exists as a directory, every call succeeds and
  every process exits with 0 and no output.
\<close>

definition parse_lines :: "string list \<Rightarrow> pydict" where
  "parse_lines ls =
     foldl (\<lambda>d l. case dropWhile (\<lambda>c. c \<noteq> CHR ''='') (strip l) of
                     [] \<Rightarrow> d
                   | _ # v \<Rightarrow> dict_set (takeWhile (\<lambda>c. c \<noteq> CHR ''='') (strip l)) v d) [] ls"

definition M0 :: config_module where
  "M0 = \<lparr> SRC_DIR = ''src'', OUTPUT_BASE_DIR = ''out'',
          GCLIENT_CONFIG = ''target_os = [@@TARGET_OS@@]'',
          chromium_version = ''91.0.4472.164'',
          ungoogled_chromium_version = ''91.0.4472.164-1'',
          ungoogled_chromium_android_version = ''91.0.4472.164-1'',
          parse_gn_flags = parse_lines,
          shell_expand_abs_path = (\<lambda>p. join2 ''/work'' p) \<rparr>"

definition cfg0 :: config where
  "cfg0 = \<lparr> output_base_dir = ''out'', shallow = False, reset = False,
            target_os = ''linux'', target_cpu = ''x64'', install_build_deps = False,
            debug = False, cc_wrapper = None, gn_args = [], direct_download = False,
            num_jobs = 8 \<rparr>"

definition world0 :: world where
  "world0 = \<lparr> os_getcwd = ''/work'', os_environ_PATH = Some ''/usr/bin'',
              os_path_abspath = (\<lambda>p. join2 ''/work'' p),
              os_path_exists = (\<lambda>n p. True),
              os_path_isdir = (\<lambda>n p. True),
              stdin_input = (\<lambda>n p. Some ''y''),
              shutil_rmtree = (\<lambda>n p. None),
              os_remove = (\<lambda>n p. None),
              os_makedirs = (\<lambda>n p. None),
              open_write = (\<lambda>n p c. None),
              open_readlines = (\<lambda>n p. Inr []),
              subprocess = (\<lambda>n cmd cwd env. Exited 0 []),
              git_maybe_checkout_result = (\<lambda>n url dir branch rst. None),
              filter_list_file_result = (\<lambda>n dir name excludes. Inr (join2 dir (name @ ''.filtered''))),
              distro_linux_distribution = (\<lambda>n. ''Ubuntu'') \<rparr>"

text \<open>The same world, with a pruning script that exits with status 1.\<close>

definition world_prune_fails :: world where
  "world_prune_fails = world0 \<lparr> subprocess := (\<lambda>n cmd cwd env.
     if take 1 cmd = [''ungoogled-chromium/utils/prune_binaries.py'']
     then Exited 1 [] else Exited 0 []) \<rparr>"

text \<open>The same world, with a \<^verbatim>\<open>git clone\<close> that exits with status 128.\<close>

definition world_clone_fails :: world where
  "world_clone_fails = world0 \<lparr> subprocess := (\<lambda>n cmd cwd env.
     if take 2 cmd = [''git'', ''clone''] then Exited 128 [] else Exited 0 []) \<rparr>"

text \<open>The same world, with the reply \<^verbatim>\<open>n\<close> to every prompt.\<close>

definition world_reply_n :: world where
  "world_reply_n = world0 \<lparr> stdin_input := (\<lambda>n p. Some ''n'') \<rparr>"

text \<open>
  The same world, with a shallow repository: \<^verbatim>\<open>git rev-parse --is-shallow-repository\<close>
  prints \<^verbatim>\<open>true\<close> and a line feed, any other process prints a commit id.
\<close>

definition world_shallow_repo :: world where
  "world_shallow_repo = world0 \<lparr> subprocess := (\<lambda>n cmd cwd env.
     if cmd = [''git'', ''rev-parse'', ''--is-shallow-repository'']
     then Exited 0 (''true'' @ [CHR 0x0A]) else Exited 0 (''4f2a9c1'' @ [CHR 0x0A])) \<rparr>"

text \<open>
  A fresh directory: no path exists, and no file can be opened for reading.
\<close>

definition world_fresh_dir :: world where
  "world_fresh_dir = world0 \<lparr>
     os_path_exists := (\<lambda>n p. False),
     os_path_isdir := (\<lambda>n p. False),
     open_readlines := (\<lambda>n p. Inl ''[Errno 2] No such file or directory'') \<rparr>"

text \<open>The world in which everything but \<^verbatim>\<open>/work/depot_tools\<close> exists.\<close>

definition world_no_depot_tools :: world where
  "world_no_depot_tools = world0 \<lparr>
     os_path_exists := (\<lambda>n p. p \<noteq> ''/work/depot_tools'') \<rparr>"


section \<open>Rules for programs\<close>

lemma emitsD: "emits p n Q \<Longrightarrow> p n = (r, es) \<Longrightarrow> Q r es"
  by (simp add: emits_def)

lemma emits_returns: "Q (Inr x) [] \<Longrightarrow> emits (returns x) n Q"
  by (simp add: emits_def returns_def)

lemma emits_raise: "Q (Inl e) [] \<Longrightarrow> emits (raise e) n Q"
  by (simp add: emits_def raise_def)

lemma emits_then_do:
  "emits p n (\<lambda>r es. case r of Inl e \<Rightarrow> Q (Inl e) es
                      | Inr x \<Rightarrow> emits (f x) (n + length es) (\<lambda>r' es'. Q r' (es @ es')))
   \<Longrightarrow> emits (then_do p f) n Q"
  by (auto simp: emits_def then_do_def split: prod.splits sum.splits)

lemma emits_when_do:
  "(b \<Longrightarrow> emits p n Q) \<Longrightarrow> (\<not> b \<Longrightarrow> Q (Inr ()) []) \<Longrightarrow> emits (when_do b p) n Q"
  by (simp add: when_do_def emits_returns)

lemma emits_if:
  "(b \<Longrightarrow> emits p n Q) \<Longrightarrow> (\<not> b \<Longrightarrow> emits q n Q) \<Longrightarrow> emits (if b then p else q) n Q"
  by simp

lemma emits_query: "(\<And>a. Q (Inr a) [ev a]) \<Longrightarrow> emits (query answer ev) n Q"
  by (simp add: emits_def query_def)

lemma emits_effect:
  "Q (Inr ()) [ev None] \<Longrightarrow> (\<And>m. Q (Inl (err m)) [ev (Some m)]) \<Longrightarrow>
   emits (effect answer ev err) n Q"
  by (auto simp: emits_def effect_def split: option.splits)

lemma emits_attempt:
  "(\<And>x. Q (Inr x) [ev (Inr x)]) \<Longrightarrow> (\<And>m. Q (Inl (err m)) [ev (Inl m)]) \<Longrightarrow>
   emits (attempt answer ev err) n Q"
  by (auto simp: emits_def attempt_def split: sum.splits)

lemma emits_path_exists: "(\<And>b. Q (Inr b) [PathExists p b]) \<Longrightarrow> emits (path_exists w p) n Q"
  unfolding path_exists_def by (rule emits_query)

lemma emits_path_isdir: "(\<And>b. Q (Inr b) [PathIsdir p b]) \<Longrightarrow> emits (path_isdir w p) n Q"
  unfolding path_isdir_def by (rule emits_query)

lemma emits_rmtree:
  "Q (Inr ()) [Rmtree p None] \<Longrightarrow> (\<And>m. Q (Inl (OSError m)) [Rmtree p (Some m)]) \<Longrightarrow>
   emits (rmtree w p) n Q"
  unfolding rmtree_def by (rule emits_effect)

lemma emits_remove_file:
  "Q (Inr ()) [Remove p None] \<Longrightarrow> (\<And>m. Q (Inl (OSError m)) [Remove p (Some m)]) \<Longrightarrow>
   emits (remove_file w p) n Q"
  unfolding remove_file_def by (rule emits_effect)

lemma emits_makedirs:
  "Q (Inr ()) [Makedirs p None] \<Longrightarrow> (\<And>m. Q (Inl (OSError m)) [Makedirs p (Some m)]) \<Longrightarrow>
   emits (makedirs w p) n Q"
  unfolding makedirs_def by (rule emits_effect)

lemma emits_write_file:
  "Q (Inr ()) [WriteFile p c None] \<Longrightarrow> (\<And>m. Q (Inl (OSError m)) [WriteFile p c (Some m)]) \<Longrightarrow>
   emits (write_file w p c) n Q"
  unfolding write_file_def by (rule emits_effect)

lemma emits_git_maybe_checkout:
  "Q (Inr ()) [GitMaybeCheckout u d b rs None] \<Longrightarrow>
   (\<And>m. Q (Inl (HelperError m)) [GitMaybeCheckout u d b rs (Some m)]) \<Longrightarrow>
   emits (git_maybe_checkout w u d b rs) n Q"
  unfolding git_maybe_checkout_def by (rule emits_effect)

lemma emits_readlines:
  "(\<And>ls. Q (Inr ls) [ReadLines p (Inr ls)]) \<Longrightarrow>
   (\<And>m. Q (Inl (OSError m)) [ReadLines p (Inl m)]) \<Longrightarrow>
   emits (readlines w p) n Q"
  unfolding readlines_def by (rule emits_attempt)

lemma emits_filter_list_file:
  "(\<And>f. Q (Inr f) [FilterListFile d nm ex (Inr f)]) \<Longrightarrow>
   (\<And>m. Q (Inl (HelperError m)) [FilterListFile d nm ex (Inl m)]) \<Longrightarrow>
   emits (filter_list_file w d nm ex) n Q"
  unfolding filter_list_file_def by (rule emits_attempt)

lemma emits_input:
  "(\<And>x. Q (Inr x) [Input p (Some x)]) \<Longrightarrow> Q (Inl EOFError) [Input p None] \<Longrightarrow>
   emits (input w p) n Q"
  by (auto simp: emits_def input_def split: option.splits)

lemma emits_spawn:
  "(\<And>rc out. Q (Inr (rc, out)) [Subprocess k cmd cwd env (Exited rc out)]) \<Longrightarrow>
   (\<And>m. Q (Inl (OSError m)) [Subprocess k cmd cwd env (NotStarted m)]) \<Longrightarrow>
   emits (spawn w k cmd cwd env) n Q"
  by (auto simp: emits_def spawn_def split: proc_result.splits)

lemma emits_sp_run:
  "(\<And>rc out. Q (Inr (rc, out)) [Subprocess SpRun cmd cwd env (Exited rc out)]) \<Longrightarrow>
   (\<And>m. Q (Inl (OSError m)) [Subprocess SpRun cmd cwd env (NotStarted m)]) \<Longrightarrow>
   emits (sp_run w cmd cwd env) n Q"
  unfolding sp_run_def by (rule emits_spawn)

lemma emits_check_call:
  "(\<And>out. Q (Inr ()) [Subprocess CheckCall cmd cwd env (Exited 0 out)]) \<Longrightarrow>
   (\<And>rc out. rc \<noteq> 0 \<Longrightarrow>
      Q (Inl (CalledProcessError rc cmd)) [Subprocess CheckCall cmd cwd env (Exited rc out)]) \<Longrightarrow>
   (\<And>m. Q (Inl (OSError m)) [Subprocess CheckCall cmd cwd env (NotStarted m)]) \<Longrightarrow>
   emits (check_call w cmd cwd env) n Q"
  unfolding check_call_def
  by (rule emits_then_do, rule emits_spawn) (auto intro!: emits_raise emits_returns)

lemma emits_check_output:
  "(\<And>out. Q (Inr out) [Subprocess CheckOutput cmd cwd env (Exited 0 out)]) \<Longrightarrow>
   (\<And>rc out. rc \<noteq> 0 \<Longrightarrow>
      Q (Inl (CalledProcessError rc cmd)) [Subprocess CheckOutput cmd cwd env (Exited rc out)]) \<Longrightarrow>
   (\<And>m. Q (Inl (OSError m)) [Subprocess CheckOutput cmd cwd env (NotStarted m)]) \<Longrightarrow>
   emits (check_output w cmd cwd env) n Q"
  unfolding check_output_def
  by (rule emits_then_do, rule emits_spawn) (auto intro!: emits_raise emits_returns)

lemma emits_depot_tools_env:
  "(\<And>path. Q (Inr (p @ '':'' @ path)) []) \<Longrightarrow> Q (Inl (KeyError ''PATH'')) [] \<Longrightarrow>
   emits (depot_tools_env w p) n Q"
  by (auto simp: depot_tools_env_def intro: emits_raise emits_returns split: option.splits)

lemmas emits_rules = emits_returns emits_raise emits_then_do emits_when_do emits_if
  emits_path_exists emits_path_isdir emits_rmtree emits_remove_file emits_makedirs
  emits_write_file emits_git_maybe_checkout emits_readlines emits_filter_list_file
  emits_input emits_sp_run emits_check_call emits_check_output emits_depot_tools_env
  emits_query

lemma after_someD:
  assumes "after_some P Q es" and "j < length es" and "Q (es ! j)" and "\<And>e. P e \<Longrightarrow> \<not> Q e"
  shows "\<exists>i<j. P (es ! i)"
  using assms(1-3)
proof (induction es arbitrary: j)
  case Nil
  then show ?case by simp
next
  case (Cons e es)
  show ?case
  proof (cases "P e")
    case True
    with assms(4) Cons.prems have "j \<noteq> 0" by (cases j) auto
    with True show ?thesis by (intro exI[of _ 0]) simp
  next
    case False
    with Cons.prems have q: "\<not> Q e" and a: "after_some P Q es" by auto
    from q Cons.prems obtain j' where j: "j = Suc j'" by (cases j) auto
    with Cons.prems have "j' < length es" "Q (es ! j')" by auto
    from Cons.IH[OF a this] obtain i where "i < j'" "P (es ! i)" by blast
    then show ?thesis using j by (intro exI[of _ "Suc i"]) simp
  qed
qed

text \<open>The definitions to unfold when a program is run on given values.\<close>

lemmas prog_defs = returns_def raise_def then_do_def when_do_def query_def effect_def attempt_def
  path_exists_def path_isdir_def rmtree_def remove_file_def makedirs_def write_file_def
  git_maybe_checkout_def readlines_def filter_list_file_def input_def spawn_def sp_run_def
  check_call_def check_output_def

section \<open>init: fresh clones\<close>

lemma removes_found_tl: "removes_found (e # es) \<Longrightarrow> removes_found es"
  by (cases "e # es" rule: removes_found.cases) auto

lemma removes_foundD:
  "removes_found t \<Longrightarrow> j < length t \<Longrightarrow> t ! j = PathExists p True \<Longrightarrow>
   Suc j < length t \<and> (\<exists>res. t ! Suc j = Rmtree p res)"
proof (induction t arbitrary: j)
  case Nil
  then show ?case by simp
next
  case (Cons e es)
  show ?case
  proof (cases j)
    case 0
    with Cons.prems show ?thesis by (auto split: list.splits event.splits)
  next
    case (Suc k)
    with Cons.prems have "k < length es" "es ! k = PathExists p True" by simp_all
    from Cons.IH[OF removes_found_tl[OF Cons.prems(1)] this] Suc show ?thesis by simp
  qed
qed

lemma init_emits:
  "emits (init M w cfg) n (\<lambda>r t.
     after_some (\<lambda>e. e = PathExists ''depot_tools'' False \<or> e = Rmtree ''depot_tools'' None)
       (\<lambda>e. case e of GitMaybeCheckout url dir b rst res \<Rightarrow> True | _ \<Rightarrow> False) t \<and>
     after_some (\<lambda>e. e = PathExists (SRC_DIR M) False \<or> e = Rmtree (SRC_DIR M) None)
       (\<lambda>e. command_of e \<noteq> None) t \<and>
     (\<forall>e\<in>set t. case e of
        Subprocess k cmd cwd env res \<Rightarrow>
          cmd = [''git'', ''clone''] @ (if shallow cfg then [''--depth'', ''1'', ''--no-tags''] else []) @
                [''https://chromium.googlesource.com/chromium/src.git'', ''-b'', chromium_version M]
      | GitMaybeCheckout url dir b rst res \<Rightarrow> dir = ''depot_tools''
      | _ \<Rightarrow> True))"
  unfolding init_def
  by (auto intro!: emits_rules simp: clone_cmd_def)

lemma init_removes_emits:
  "emits (init M w cfg) n (\<lambda>r t.
     removes_found t \<and>
     (case t of PathExists p b # es \<Rightarrow> p = ''depot_tools'' | _ \<Rightarrow> False) \<and>
     (r = Inr () \<longrightarrow>
        GitMaybeCheckout ''https://chromium.googlesource.com/chromium/tools/depot_tools.git''
          ''depot_tools'' None None None \<in> set t \<and>
        (PathExists (SRC_DIR M) True \<in> set t \<or> PathExists (SRC_DIR M) False \<in> set t) \<and>
        (case last t of
           Subprocess k cmd cwd env (Exited rc out) \<Rightarrow>
             k = CheckCall \<and> rc = 0 \<and> cwd = None \<and> env = None \<and>
             cmd = [''git'', ''clone''] @ (if shallow cfg then [''--depth'', ''1'', ''--no-tags''] else []) @
                   [''https://chromium.googlesource.com/chromium/src.git'', ''-b'', chromium_version M]
         | _ \<Rightarrow> False)))"
  unfolding init_def
  by (auto intro!: emits_rules simp: clone_cmd_def)

text \<open>
  Claim C10. Every run of \<^verbatim>\<open>init\<close> starts by asking whether \<^verbatim>\<open>depot_tools\<close> exists, and
  an answer that a path exists is followed at once by the \<^verbatim>\<open>rmtree\<close> of that path. The
  call that clones \<^verbatim>\<open>depot_tools\<close> is for the directory \<^verbatim>\<open>depot_tools\<close> and comes after
  either the answer that this directory does not exist or its successful removal. The
  only external command is the clone of the chromium source: it comes after either the
  answer that the source directory does not exist or its successful removal, and its
  command is \<^verbatim>\<open>git clone\<close>, then \<^verbatim>\<open>--depth 1 --no-tags\<close> exactly when the shallow flag
  is set, then the URL, \<^verbatim>\<open>-b\<close> and the chromium version. A run that returns has made the
  \<^verbatim>\<open>depot_tools\<close> checkout, has asked whether the source directory exists, and ends with
  that clone command exiting with status 0.
\<close>

theorem init_fresh_clone:
  assumes "init M w cfg n = (r, t)"
  shows "(\<forall>j<length t.
            (\<forall>url dir b rst res. t ! j = GitMaybeCheckout url dir b rst res \<longrightarrow>
               dir = ''depot_tools'' \<and>
               (\<exists>i<j. t ! i = PathExists ''depot_tools'' False \<or> t ! i = Rmtree ''depot_tools'' None)) \<and>
            (\<forall>k cmd cwd env res. t ! j = Subprocess k cmd cwd env res \<longrightarrow>
               cmd = [''git'', ''clone''] @ (if shallow cfg then [''--depth'', ''1'', ''--no-tags''] else []) @
                     [''https://chromium.googlesource.com/chromium/src.git'', ''-b'', chromium_version M] \<and>
               (\<exists>i<j. t ! i = PathExists (SRC_DIR M) False \<or> t ! i = Rmtree (SRC_DIR M) None)) \<and>
            (\<forall>p. t ! j = PathExists p True \<longrightarrow>
               Suc j < length t \<and> (\<exists>res. t ! Suc j = Rmtree p res))) \<and>
         t \<noteq> [] \<and> (\<exists>b. t ! 0 = PathExists ''depot_tools'' b) \<and>
         (r = Inr () \<longrightarrow>
            GitMaybeCheckout ''https://chromium.googlesource.com/chromium/tools/depot_tools.git''
              ''depot_tools'' None None None \<in> set t \<and>
            (\<exists>b. PathExists (SRC_DIR M) b \<in> set t) \<and>
            (\<exists>out. last t = Subprocess CheckCall
               ([''git'', ''clone''] @ (if shallow cfg then [''--depth'', ''1'', ''--no-tags''] else []) @
                [''https://chromium.googlesource.com/chromium/src.git'', ''-b'', chromium_version M])
               None None (Exited 0 out)))"
proof -
  note run = emitsD[OF init_emits assms]
  note run2 = emitsD[OF init_removes_emits assms]
  from run have a1: "after_some (\<lambda>e. e = PathExists ''depot_tools'' False \<or> e = Rmtree ''depot_tools'' None)
       (\<lambda>e. case e of GitMaybeCheckout url dir b rst res \<Rightarrow> True | _ \<Rightarrow> False) t" by simp
  from run have a2: "after_some (\<lambda>e. e = PathExists (SRC_DIR M) False \<or> e = Rmtree (SRC_DIR M) None)
       (\<lambda>e. command_of e \<noteq> None) t" by simp
  from run have a3: "\<forall>e\<in>set t. case e of
        Subprocess k cmd cwd env res \<Rightarrow>
          cmd = [''git'', ''clone''] @ (if shallow cfg then [''--depth'', ''1'', ''--no-tags''] else []) @
                [''https://chromium.googlesource.com/chromium/src.git'', ''-b'', chromium_version M]
      | GitMaybeCheckout url dir b rst res \<Rightarrow> dir = ''depot_tools''
      | _ \<Rightarrow> True" by simp
  from run2 have rf: "removes_found t" by simp
  have 1: "dir = ''depot_tools'' \<and>
       (\<exists>i<j. t ! i = PathExists ''depot_tools'' False \<or> t ! i = Rmtree ''depot_tools'' None)"
    if j: "j < length t" and e: "t ! j = GitMaybeCheckout url dir b rst res" for j url dir b rst res
  proof
    from a3 j have "case t ! j of
        Subprocess k cmd cwd env res \<Rightarrow>
          cmd = [''git'', ''clone''] @ (if shallow cfg then [''--depth'', ''1'', ''--no-tags''] else []) @
                [''https://chromium.googlesource.com/chromium/src.git'', ''-b'', chromium_version M]
      | GitMaybeCheckout url dir b rst res \<Rightarrow> dir = ''depot_tools''
      | _ \<Rightarrow> True" by simp
    with e show "dir = ''depot_tools''" by simp
    from e show "\<exists>i<j. t ! i = PathExists ''depot_tools'' False \<or> t ! i = Rmtree ''depot_tools'' None"
      by (intro after_someD[OF a1 j]) auto
  qed
  have 2: "cmd = [''git'', ''clone''] @ (if shallow cfg then [''--depth'', ''1'', ''--no-tags''] else []) @
                  [''https://chromium.googlesource.com/chromium/src.git'', ''-b'', chromium_version M] \<and>
       (\<exists>i<j. t ! i = PathExists (SRC_DIR M) False \<or> t ! i = Rmtree (SRC_DIR M) None)"
    if j: "j < length t" and e: "t ! j = Subprocess k cmd cwd env res" for j k cmd cwd env res
  proof
    from a3 j have "case t ! j of
        Subprocess k cmd cwd env res \<Rightarrow>
          cmd = [''git'', ''clone''] @ (if shallow cfg then [''--depth'', ''1'', ''--no-tags''] else []) @
                [''https://chromium.googlesource.com/chromium/src.git'', ''-b'', chromium_version M]
      | GitMaybeCheckout url dir b rst res \<Rightarrow> dir = ''depot_tools''
      | _ \<Rightarrow> True" by simp
    with e show "cmd = [''git'', ''clone''] @ (if shallow cfg then [''--depth'', ''1'', ''--no-tags''] else []) @
                [''https://chromium.googlesource.com/chromium/src.git'', ''-b'', chromium_version M]" by simp
    from e show "\<exists>i<j. t ! i = PathExists (SRC_DIR M) False \<or> t ! i = Rmtree (SRC_DIR M) None"
      by (intro after_someD[OF a2 j]) auto
  qed
  have 3: "Suc j < length t \<and> (\<exists>res. t ! Suc j = Rmtree p res)"
    if "j < length t" "t ! j = PathExists p True" for j p
    using removes_foundD[OF rf that] .
  from run2 have 4: "t \<noteq> [] \<and> (\<exists>b. t ! 0 = PathExists ''depot_tools'' b)"
    by (auto split: list.splits event.splits)
  have 5: "GitMaybeCheckout ''https://chromium.googlesource.com/chromium/tools/depot_tools.git''
              ''depot_tools'' None None None \<in> set t \<and>
            (\<exists>b. PathExists (SRC_DIR M) b \<in> set t) \<and>
            (\<exists>out. last t = Subprocess CheckCall
               ([''git'', ''clone''] @ (if shallow cfg then [''--depth'', ''1'', ''--no-tags''] else []) @
                [''https://chromium.googlesource.com/chromium/src.git'', ''-b'', chromium_version M])
               None None (Exited 0 out))"
    if "r = Inr ()"
    using run2 that by (auto split: event.splits proc_result.splits)
  from 1 2 3 4 5 show ?thesis by blast
qed


lemma init_example:
  "init M0 world0 (cfg0\<lparr>shallow := True\<rparr>) 0 =
    (Inr (),
     [PathExists ''depot_tools'' True, Rmtree ''depot_tools'' None,
      GitMaybeCheckout ''https://chromium.googlesource.com/chromium/tools/depot_tools.git''
        ''depot_tools'' None None None,
      PathExists ''src'' True, Rmtree ''src'' None,
      Subprocess CheckCall
        [''git'', ''clone'', ''--depth'', ''1'', ''--no-tags'',
         ''https://chromium.googlesource.com/chromium/src.git'', ''-b'', ''91.0.4472.164'']
        None None (Exited 0 [])])"
  by (simp add: init_def prog_defs M0_def world0_def cfg0_def clone_cmd_def)

theorem init_fresh_clone_witness:
  "fst (init M0 world0 (cfg0\<lparr>shallow := True\<rparr>) 0) = Inr () \<and>
   snd (init M0 world0 (cfg0\<lparr>shallow := True\<rparr>) 0) ! 0 = PathExists ''depot_tools'' True \<and>
   (\<exists>res. snd (init M0 world0 (cfg0\<lparr>shallow := True\<rparr>) 0) ! Suc 0 = Rmtree ''depot_tools'' res) \<and>
   GitMaybeCheckout ''https://chromium.googlesource.com/chromium/tools/depot_tools.git''
     ''depot_tools'' None None None \<in> set (snd (init M0 world0 (cfg0\<lparr>shallow := True\<rparr>) 0)) \<and>
   (\<exists>out. last (snd (init M0 world0 (cfg0\<lparr>shallow := True\<rparr>) 0)) =
      Subprocess CheckCall
        [''git'', ''clone'', ''--depth'', ''1'', ''--no-tags'',
         ''https://chromium.googlesource.com/chromium/src.git'', ''-b'', ''91.0.4472.164'']
        None None (Exited 0 out))"
proof -
  let ?cfg = "cfg0\<lparr>shallow := True\<rparr>"
  let ?t = "snd (init M0 world0 ?cfg 0)"
  have run: "init M0 world0 ?cfg 0 = (Inr (), ?t)"
    by (simp add: init_example)
  have len: "0 < length ?t"
    by (simp add: init_example)
  have first: "?t ! 0 = PathExists ''depot_tools'' True"
    by (simp add: init_example)
  note th = init_fresh_clone[OF run]
  from th len first have rm: "\<exists>res. ?t ! Suc 0 = Rmtree ''depot_tools'' res"
    by blast
  from th have co: "GitMaybeCheckout ''https://chromium.googlesource.com/chromium/tools/depot_tools.git''
     ''depot_tools'' None None None \<in> set ?t"
    by blast
  from th have "\<exists>out. last ?t = Subprocess CheckCall
       ([''git'', ''clone''] @ (if shallow ?cfg then [''--depth'', ''1'', ''--no-tags''] else []) @
        [''https://chromium.googlesource.com/chromium/src.git'', ''-b'', chromium_version M0])
       None None (Exited 0 out)"
    by blast
  then have cl: "\<exists>out. last ?t = Subprocess CheckCall
        [''git'', ''clone'', ''--depth'', ''1'', ''--no-tags'',
         ''https://chromium.googlesource.com/chromium/src.git'', ''-b'', ''91.0.4472.164'']
        None None (Exited 0 out)"
    by (simp add: M0_def)
  have res: "fst (init M0 world0 ?cfg 0) = Inr ()"
    by (simp add: init_example)
  from res first rm co cl show ?thesis by blast
qed

section \<open>clean: the guard on the output directory\<close>

text \<open>
  Claim C8. When the output directory does not exist, \<^verbatim>\<open>clean\<close> returns after that
  one query. When it exists and its expanded path differs from the expanded default
  location: a reply other than \<^verbatim>\<open>y\<close> makes \<^verbatim>\<open>clean\<close> return with nothing but the
  query and the prompt performed, so no file or directory is touched; the reply \<^verbatim>\<open>y\<close>
  is followed by \<^verbatim>\<open>rm -rf\<close> on the directory; and an external command in the run
  means that the reply was \<^verbatim>\<open>y\<close>.
\<close>

theorem clean_guard:
  "(\<not> os_path_exists w n (output_base_dir cfg) \<longrightarrow>
      clean M w cfg n = (Inr (), [PathExists (output_base_dir cfg) False])) \<and>
   (os_path_exists w n (output_base_dir cfg) \<and>
    shell_expand_abs_path M (output_base_dir cfg) \<noteq> shell_expand_abs_path M (OUTPUT_BASE_DIR M) \<longrightarrow>
      (\<forall>reply. stdin_input w (Suc n) (clean_prompt w cfg) = Some reply \<and> reply \<noteq> ''y'' \<longrightarrow>
         clean M w cfg n =
           (Inr (), [PathExists (output_base_dir cfg) True, Input (clean_prompt w cfg) (Some reply)])) \<and>
      (stdin_input w (Suc n) (clean_prompt w cfg) = Some ''y'' \<longrightarrow>
         snd (clean M w cfg n) =
           [PathExists (output_base_dir cfg) True, Input (clean_prompt w cfg) (Some ''y''),
            Subprocess CheckCall [''rm'', ''-rf'', output_base_dir cfg] None None
              (subprocess w (Suc (Suc n)) [''rm'', ''-rf'', output_base_dir cfg] None None)]) \<and>
      ((\<exists>e\<in>set (snd (clean M w cfg n)). command_of e \<noteq> None) \<longrightarrow>
         stdin_input w (Suc n) (clean_prompt w cfg) = Some ''y''))"
  by (auto simp: clean_def prog_defs split: option.splits proc_result.splits)

theorem clean_guard_witness:
  "clean M0 world_reply_n (cfg0\<lparr>output_base_dir := ''out2''\<rparr>) 0 =
     (Inr (), [PathExists ''out2'' True,
               Input (clean_prompt world_reply_n (cfg0\<lparr>output_base_dir := ''out2''\<rparr>)) (Some ''n'')])"
  using clean_guard[of world_reply_n 0 "cfg0\<lparr>output_base_dir := ''out2''\<rparr>" M0]
  by (simp add: world_reply_n_def world0_def M0_def cfg0_def join2_def)

section \<open>build: the layers of GN arguments\<close>





section \<open>Checked processes end the run\<close>

lemma fails_fast_append:
  "fails_fast (Inr x) es \<Longrightarrow> fails_fast r es' \<Longrightarrow> fails_fast r (es @ es')"
  by (induction es) (auto split: option.splits)

lemma fails_fast_Inl: "fails_fast (Inl e :: error + 'a) es \<Longrightarrow> fails_fast (Inl e :: error + 'b) es"
  by (induction es) (auto split: option.splits error.splits)

lemma ff_then_do:
  assumes "emits p n fails_fast" and "\<And>x m. emits (f x) m fails_fast"
  shows "emits (then_do p f) n fails_fast"
proof (rule emits_then_do)
  show "emits p n (\<lambda>r es. case r of
          Inl e \<Rightarrow> fails_fast (Inl e) es
        | Inr x \<Rightarrow> emits (f x) (n + length es) (\<lambda>r' es'. fails_fast r' (es @ es')))"
    unfolding emits_def
  proof (cases "fst (p n)")
    case (Inl e)
    with assms(1) show "case fst (p n) of
          Inl e \<Rightarrow> fails_fast (Inl e) (snd (p n))
        | Inr x \<Rightarrow> fails_fast (fst (f x (n + length (snd (p n)))))
                     (snd (p n) @ snd (f x (n + length (snd (p n)))))"
      by (simp add: emits_def fails_fast_Inl)
  next
    case (Inr x)
    with assms(1) have "fails_fast (Inr x) (snd (p n))" by (simp add: emits_def)
    from fails_fast_append[OF this] assms(2)[of x "n + length (snd (p n))"] Inr
    show "case fst (p n) of
          Inl e \<Rightarrow> fails_fast (Inl e) (snd (p n))
        | Inr x \<Rightarrow> fails_fast (fst (f x (n + length (snd (p n)))))
                     (snd (p n) @ snd (f x (n + length (snd (p n)))))"
      by (simp add: emits_def)
  qed
qed

lemma ff_prims:
  "emits (returns x) n fails_fast"
  "(\<And>rc cmd. e \<noteq> CalledProcessError rc cmd) \<Longrightarrow> emits (raise e) n fails_fast"
  "emits (path_exists w p) n fails_fast"
  "emits (path_isdir w p) n fails_fast"
  "emits (rmtree w p) n fails_fast"
  "emits (remove_file w p) n fails_fast"
  "emits (makedirs w p) n fails_fast"
  "emits (write_file w p c) n fails_fast"
  "emits (git_maybe_checkout w u d b rs) n fails_fast"
  "emits (readlines w p) n fails_fast"
  "emits (filter_list_file w d nm ex) n fails_fast"
  "emits (input w p) n fails_fast"
  "emits (sp_run w cmd cwd env) n fails_fast"
  "emits (check_call w cmd cwd env) n fails_fast"
  "emits (check_output w cmd cwd env) n fails_fast"
  "emits (depot_tools_env w p) n fails_fast"
  "emits (query a LinuxDistribution) n fails_fast"
  by (auto intro!: emits_rules split: error.splits)


lemmas ff_rules = ff_then_do ff_prims emits_when_do emits_if

lemma ff_clean: "emits (clean M w cfg) n fails_fast"
  unfolding clean_def by (intro ff_rules)

lemma ff_init: "emits (init M w cfg) n fails_fast"
  unfolding init_def by (intro ff_rules) simp_all

lemma ff_set_revision: "emits (set_revision M w cfg) n fails_fast"
  unfolding set_revision_def update_to_version_def git_in_src_def
  by (intro ff_rules) simp_all

lemma ff_sync: "emits (sync M w cfg) n fails_fast"
  unfolding sync_def depot_tools_missing_def install_deps_def Let_def
  by (intro ff_rules ff_set_revision) simp_all

lemma ff_prepare: "emits (prepare M w cfg) n fails_fast"
  unfolding prepare_def prepare_android_checkout_def prepare_android_scripts_def remove_cache_def
    prune_binaries_def apply_patches_def domain_substitution_def
  by (intro ff_rules) simp_all

lemma ff_build: "emits (build M w cfg) n fails_fast"
  unfolding build_def make_output_folder_def depot_tools_missing_def run_gn_def autoninja_def Let_def
  by (intro ff_rules) simp_all

lemma ff_main: "emits (main M w command cfg) n fails_fast"
  unfolding main_def
  by (intro emits_if ff_clean ff_init ff_sync ff_prepare ff_build ff_prims)

lemma fails_fast_failure:
  "fails_fast r t \<Longrightarrow> i < length t \<Longrightarrow> failure_of (t ! i) = Some (rc, cmd) \<Longrightarrow>
   Suc i = length t \<and> r = Inl (CalledProcessError rc cmd)"
proof (induction t arbitrary: i)
  case Nil
  then show ?case by simp
next
  case (Cons e t)
  show ?case
  proof (cases i)
    case 0
    with Cons.prems show ?thesis by simp
  next
    case (Suc i')
    with Cons.prems have "failure_of e = None"
      by (cases "failure_of e") auto
    with Cons.prems Suc have "fails_fast r t" "i' < length t" "failure_of (t ! i') = Some (rc, cmd)"
      by simp_all
    from Cons.IH[OF this] Suc show ?thesis by simp
  qed
qed

lemma fails_fast_error:
  "fails_fast (Inl (CalledProcessError rc cmd)) t \<Longrightarrow>
   t \<noteq> [] \<and> failure_of (last t) = Some (rc, cmd) \<and> (\<forall>e\<in>set (butlast t). failure_of e = None)"
  by (induction t) (auto split: option.splits)

lemma prepare_prune_fails_example:
  "prepare M0 world_prune_fails cfg0 0 =
    (Inr (),
     [GitMaybeCheckout ''https://github.com/Eloston/ungoogled-chromium.git''
        ''ungoogled-chromium'' (Some ''91.0.4472.164-1'') (Some True) None,
      PathExists ''domsubcache.tar.gz'' True,
      Remove ''domsubcache.tar.gz'' None,
      FilterListFile ''ungoogled-chromium'' ''pruning.list'' (Some [''buildtools/linux64/gn''])
        (Inr ''ungoogled-chromium/pruning.list.filtered''),
      Subprocess SpRun
        [''ungoogled-chromium/utils/prune_binaries.py'', ''src'',
         ''ungoogled-chromium/pruning.list.filtered'']
        None None (Exited 1 []),
      Subprocess CheckCall
        [''ungoogled-chromium/utils/patches.py'', ''apply'', ''src'', ''ungoogled-chromium/patches'']
        None None (Exited 0 []),
      FilterListFile ''ungoogled-chromium'' ''domain_substitution.list'' None
        (Inr ''ungoogled-chromium/domain_substitution.list.filtered''),
      Subprocess CheckCall
        [''ungoogled-chromium/utils/domain_substitution.py'', ''apply'', ''-r'',
         ''ungoogled-chromium/domain_regex.list'', ''-f'',
         ''ungoogled-chromium/domain_substitution.list.filtered'', ''-c'',
         ''domsubcache.tar.gz'', ''src'']
        None None (Exited 0 [])])"
  by (simp add: prepare_def remove_cache_def prune_binaries_def apply_patches_def
        domain_substitution_def utils_dir_def os_path_join_def join2_def
        prog_defs M0_def world_prune_fails_def world0_def cfg0_def)

lemma init_clone_fails_example:
  "init M0 world_clone_fails cfg0 0 =
    (Inl (CalledProcessError 128
            [''git'', ''clone'', ''https://chromium.googlesource.com/chromium/src.git'',
             ''-b'', ''91.0.4472.164'']),
     [PathExists ''depot_tools'' True, Rmtree ''depot_tools'' None,
      GitMaybeCheckout ''https://chromium.googlesource.com/chromium/tools/depot_tools.git''
        ''depot_tools'' None None None,
      PathExists ''src'' True, Rmtree ''src'' None,
      Subprocess CheckCall
        [''git'', ''clone'', ''https://chromium.googlesource.com/chromium/src.git'',
         ''-b'', ''91.0.4472.164'']
        None None (Exited 128 [])])"
  by (simp add: init_def prog_defs M0_def world_clone_fails_def world0_def cfg0_def clone_cmd_def)

text \<open>
  The pruning script of \<^verbatim>\<open>prepare\<close> is started with \<^verbatim>\<open>subprocess.run\<close>. Here it exits
  with status 1, the run goes on with the two other scripts and \<^verbatim>\<open>prepare\<close> returns.
\<close>

theorem unchecked_prune_counterexample:
  "fst (prepare M0 world_prune_fails cfg0 0) = Inr () \<and>
   snd (prepare M0 world_prune_fails cfg0 0) ! 4 =
     Subprocess SpRun
       [''ungoogled-chromium/utils/prune_binaries.py'', ''src'',
        ''ungoogled-chromium/pruning.list.filtered'']
       None None (Exited 1 []) \<and>
   length (snd (prepare M0 world_prune_fails cfg0 0)) = 8"
  by (simp add: prepare_prune_fails_example)

text \<open>
  Claim C1, amended. In every run of \<^verbatim>\<open>init\<close>, \<^verbatim>\<open>sync\<close>, \<^verbatim>\<open>prepare\<close>, \<^verbatim>\<open>build\<close>
  and \<^verbatim>\<open>clean\<close>, a process started with \<^verbatim>\<open>check_call\<close> or \<^verbatim>\<open>check_output\<close> that
  exits with a status other than 0 is the last event of the run, and the run ends in the
  \<open>CalledProcessError\<close> of that status and command: nothing is retried and nothing is
  done after it. The processes started with \<^verbatim>\<open>subprocess.run\<close> (the pruning script, the
  \<^verbatim>\<open>git describe\<close> probe) are not failures in this sense.
\<close>

theorem checked_failure_aborts:
  assumes "p \<in> {init M w cfg, sync M w cfg, prepare M w cfg, build M w cfg, clean M w cfg}"
    and "p n = (r, t)" and "i < length t" and "failure_of (t ! i) = Some (rc, cmd)"
  shows "Suc i = length t \<and> r = Inl (CalledProcessError rc cmd)"
proof -
  from assms(1) have "emits p n fails_fast"
    using ff_init ff_sync ff_prepare ff_build ff_clean by auto
  from emitsD[OF this assms(2)] have "fails_fast r t" .
  from fails_fast_failure[OF this assms(3,4)] show ?thesis .
qed

theorem checked_failure_aborts_witness:
  "failure_of (snd (init M0 world_clone_fails cfg0 0) ! 5) =
     Some (128, [''git'', ''clone'', ''https://chromium.googlesource.com/chromium/src.git'',
                 ''-b'', ''91.0.4472.164'']) \<and>
   Suc 5 = length (snd (init M0 world_clone_fails cfg0 0)) \<and>
   fst (init M0 world_clone_fails cfg0 0) =
     Inl (CalledProcessError 128
            [''git'', ''clone'', ''https://chromium.googlesource.com/chromium/src.git'',
             ''-b'', ''91.0.4472.164''])"
proof -
  let ?p = "init M0 world_clone_fails cfg0"
  have mem: "?p \<in> {init M0 world_clone_fails cfg0, sync M0 world_clone_fails cfg0,
      prepare M0 world_clone_fails cfg0, build M0 world_clone_fails cfg0,
      clean M0 world_clone_fails cfg0}"
    by simp
  have run: "?p 0 = (fst (?p 0), snd (?p 0))" by simp
  have len: "5 < length (snd (?p 0))" by (simp add: init_clone_fails_example)
  have f: "failure_of (snd (?p 0) ! 5) =
     Some (128, [''git'', ''clone'', ''https://chromium.googlesource.com/chromium/src.git'',
                 ''-b'', ''91.0.4472.164''])"
    by (simp add: init_clone_fails_example)
  from checked_failure_aborts[OF mem run len f] f show ?thesis by simp
qed

text \<open>
  A \<^verbatim>\<open>git clone\<close> that exits with status 128 ends \<^verbatim>\<open>init\<close>; the exit status of the
  script is 1.
\<close>

theorem exit_status_counterexample:
  "failure_of (last (snd (main M0 world_clone_fails ''init'' cfg0 0))) =
     Some (128, [''git'', ''clone'', ''https://chromium.googlesource.com/chromium/src.git'',
                 ''-b'', ''91.0.4472.164'']) \<and>
   exit_status (fst (main M0 world_clone_fails ''init'' cfg0 0)) = 1"
  by (simp add: main_def init_clone_fails_example exit_status_def)

text \<open>
  Claim C2, amended. When the script ends in the \<open>CalledProcessError\<close> of a status and a
  command, the last event of the run is the checked process of that command exiting with
  that status, no checked process failed before it, and the exit status of the script is 1.
\<close>

theorem exit_status_of_failed_process:
  assumes "main M w command cfg n = (Inl (CalledProcessError rc cmd), t)"
  shows "exit_status (fst (main M w command cfg n)) = 1 \<and>
         t \<noteq> [] \<and> failure_of (last t) = Some (rc, cmd) \<and>
         (\<forall>e\<in>set (butlast t). failure_of e = None)"
proof -
  from emitsD[OF ff_main assms] have "fails_fast (Inl (CalledProcessError rc cmd) :: error + unit) t" .
  from fails_fast_error[OF this] assms show ?thesis
    by (simp add: exit_status_def)
qed

theorem exit_status_of_failed_process_witness:
  "exit_status (fst (main M0 world_clone_fails ''init'' cfg0 0)) = 1 \<and>
   failure_of (last (snd (main M0 world_clone_fails ''init'' cfg0 0))) =
     Some (128, [''git'', ''clone'', ''https://chromium.googlesource.com/chromium/src.git'',
                 ''-b'', ''91.0.4472.164''])"
proof -
  have run: "main M0 world_clone_fails ''init'' cfg0 0 =
    (Inl (CalledProcessError 128
            [''git'', ''clone'', ''https://chromium.googlesource.com/chromium/src.git'',
             ''-b'', ''91.0.4472.164'']),
     snd (main M0 world_clone_fails ''init'' cfg0 0))"
    by (simp add: main_def init_clone_fails_example)
  from exit_status_of_failed_process[OF run] show ?thesis by simp
qed

section \<open>set_revision: the shallowness check\<close>

lemma set_revision_emits:
  assumes "\<not> shallow cfg"
  shows "emits (set_revision M w cfg) n (\<lambda>r t.
     after_some (\<lambda>e. case shallow_answer e of None \<Rightarrow> False | Some s \<Rightarrow> s \<noteq> ''true'')
       is_revision_change t \<and>
     ((\<exists>e\<in>set t. shallow_answer e = Some ''true'') \<longrightarrow>
        r = Inl (RuntimeError ''Cannot set revision on a shallow repository!'') \<and>
        (\<forall>e\<in>set t. \<not> is_revision_change e)) \<and>
     (case t of
        [] \<Rightarrow> False
      | [e] \<Rightarrow> (\<forall>out. e \<noteq> Subprocess CheckOutput [''git'', ''rev-parse'', ''HEAD'']
                                (Some (SRC_DIR M)) None (Exited 0 out))
      | e # e' # es \<Rightarrow> is_shallow_query e'))"
  using assms
  unfolding set_revision_def update_to_version_def git_in_src_def
  by (auto intro!: emits_rules simp: is_revision_change_def is_shallow_query_def)

text \<open>
  Claim C4. With the shallow flag disabled, in every run of \<^verbatim>\<open>set_revision\<close>: a
  \<^verbatim>\<open>git clean\<close>, \<^verbatim>\<open>reset\<close>, \<^verbatim>\<open>pull\<close> or \<^verbatim>\<open>checkout\<close> comes only after a
  shallowness query that exited with 0 and answered something other than \<^verbatim>\<open>true\<close>; when
  a shallowness query answers \<^verbatim>\<open>true\<close>, the run ends in the error
  \<^verbatim>\<open>Cannot set revision on a shallow repository!\<close> and holds none of these commands;
  and the query is the second command of the run as soon as the first one, the reading
  of the current revision, has succeeded.
\<close>

theorem set_revision_shallow_check:
  assumes "\<not> shallow cfg" and "set_revision M w cfg n = (r, t)"
  shows "(\<forall>j<length t. is_revision_change (t ! j) \<longrightarrow>
            (\<exists>i<j. \<exists>s. shallow_answer (t ! i) = Some s \<and> s \<noteq> ''true'')) \<and>
         ((\<exists>e\<in>set t. shallow_answer e = Some ''true'') \<longrightarrow>
            r = Inl (RuntimeError ''Cannot set revision on a shallow repository!'') \<and>
            (\<forall>e\<in>set t. \<not> is_revision_change e)) \<and>
         (\<forall>out. t \<noteq> [] \<and> t ! 0 = Subprocess CheckOutput [''git'', ''rev-parse'', ''HEAD'']
                                      (Some (SRC_DIR M)) None (Exited 0 out) \<longrightarrow>
            2 \<le> length t \<and> is_shallow_query (t ! 1))"
proof -
  note run = emitsD[OF set_revision_emits[OF assms(1)] assms(2)]
  from run have a: "after_some (\<lambda>e. case shallow_answer e of None \<Rightarrow> False | Some s \<Rightarrow> s \<noteq> ''true'')
       is_revision_change t" by simp
  have 1: "\<exists>i<j. \<exists>s. shallow_answer (t ! i) = Some s \<and> s \<noteq> ''true''"
    if "j < length t" "is_revision_change (t ! j)" for j
  proof -
    have "\<exists>i<j. case shallow_answer (t ! i) of None \<Rightarrow> False | Some s \<Rightarrow> s \<noteq> ''true''"
    proof (rule after_someD[OF a that])
      fix e assume "case shallow_answer e of None \<Rightarrow> False | Some s \<Rightarrow> s \<noteq> ''true''"
      then show "\<not> is_revision_change e"
        by (cases e rule: shallow_answer.cases)
           (auto simp: is_revision_change_def split: if_splits)
    qed
    then show ?thesis by (auto split: option.splits)
  qed
  from run have 2: "(\<exists>e\<in>set t. shallow_answer e = Some ''true'') \<longrightarrow>
            r = Inl (RuntimeError ''Cannot set revision on a shallow repository!'') \<and>
            (\<forall>e\<in>set t. \<not> is_revision_change e)" by simp
  from run have 3: "case t of
        [] \<Rightarrow> False
      | [e] \<Rightarrow> (\<forall>out. e \<noteq> Subprocess CheckOutput [''git'', ''rev-parse'', ''HEAD'']
                                (Some (SRC_DIR M)) None (Exited 0 out))
      | e # e' # es \<Rightarrow> is_shallow_query e'" by simp
  have "2 \<le> length t \<and> is_shallow_query (t ! 1)"
    if "t \<noteq> []" "t ! 0 = Subprocess CheckOutput [''git'', ''rev-parse'', ''HEAD'']
                                      (Some (SRC_DIR M)) None (Exited 0 out)" for out
    using 3 that by (auto split: list.splits)
  with 1 2 show ?thesis by blast
qed

lemma set_revision_shallow_example:
  "set_revision M0 world_shallow_repo cfg0 2 =
     (Inl (RuntimeError ''Cannot set revision on a shallow repository!''),
      [Subprocess CheckOutput [''git'', ''rev-parse'', ''HEAD''] (Some ''src'') None
         (Exited 0 (''4f2a9c1'' @ [CHR 0x0A])),
       Subprocess CheckOutput [''git'', ''rev-parse'', ''--is-shallow-repository''] (Some ''src'') None
         (Exited 0 (''true'' @ [CHR 0x0A]))])"
  by (simp add: set_revision_def prog_defs M0_def world_shallow_repo_def world0_def cfg0_def
        strip_def isspace_def)

theorem set_revision_shallow_check_witness:
  "\<not> shallow cfg0 \<and>
   shallow_answer (snd (set_revision M0 world_shallow_repo cfg0 2) ! 1) = Some ''true'' \<and>
   fst (set_revision M0 world_shallow_repo cfg0 2) =
     Inl (RuntimeError ''Cannot set revision on a shallow repository!'') \<and>
   length (snd (set_revision M0 world_shallow_repo cfg0 2)) = 2"
proof -
  let ?run = "set_revision M0 world_shallow_repo cfg0 2"
  have s: "\<not> shallow cfg0" by (simp add: cfg0_def)
  have run: "?run = (fst ?run, snd ?run)" by simp
  have len: "length (snd ?run) = 2" by (simp add: set_revision_shallow_example)
  have ans: "shallow_answer (snd ?run ! 1) = Some ''true''"
    by (simp add: set_revision_shallow_example strip_def isspace_def)
  have "snd ?run ! 1 \<in> set (snd ?run)" using len by simp
  with ans have "\<exists>e\<in>set (snd ?run). shallow_answer e = Some ''true''" by blast
  with set_revision_shallow_check[OF s run]
  have "fst ?run = Inl (RuntimeError ''Cannot set revision on a shallow repository!'')" by blast
  with s len ans show ?thesis by simp
qed

section \<open>sync and build: the depot_tools check\<close>

lemma emits_depot_tools_missing:
  assumes "(\<forall>n. \<not> os_path_exists w n p) \<or> (\<forall>n. \<not> os_path_isdir w n p)"
    and "Q (Inr True) [PathExists p False]"
    and "Q (Inr True) [PathExists p True, PathIsdir p False]"
  shows "emits (depot_tools_missing w p) n Q"
  using assms
  by (auto simp: emits_def depot_tools_missing_def prog_defs)

lemma sync_missing_emits:
  assumes "(\<forall>n. \<not> os_path_exists w n (os_path_join (os_getcwd w) [''depot_tools''])) \<or>
           (\<forall>n. \<not> os_path_isdir w n (os_path_join (os_getcwd w) [''depot_tools'']))"
  shows "emits (sync M w cfg) n (\<lambda>r t.
           r = Inl (FileNotFoundError ''Cannot find depot_tools!'') \<and>
           (\<forall>e\<in>set t. command_of e = None))"
  unfolding sync_def Let_def
  by (rule emits_then_do, rule emits_depot_tools_missing[OF assms])
     (auto intro!: emits_raise)

lemma build_missing_emits:
  assumes "(\<forall>n. \<not> os_path_exists w n (os_path_join (os_getcwd w) [''depot_tools''])) \<or>
           (\<forall>n. \<not> os_path_isdir w n (os_path_join (os_getcwd w) [''depot_tools'']))"
  shows "emits (build M w cfg) n (\<lambda>r t.
           isl r \<and> (\<forall>e\<in>set t. command_of e = None) \<and>
           ((\<exists>e\<in>set t. read_ok e) \<longrightarrow> r = Inl (FileNotFoundError ''Cannot find depot_tools!'')))"
  unfolding build_def make_output_folder_def Let_def
  by (auto intro!: emits_depot_tools_missing[OF assms] emits_rules)

text \<open>
  Claim C5, amended. When the \<^verbatim>\<open>depot_tools\<close> directory is missing, or is not a
  directory, \<^verbatim>\<open>sync\<close> ends in the error \<^verbatim>\<open>Cannot find depot_tools!\<close> without having
  started any external command. \<^verbatim>\<open>build\<close> ends in an error without having started any
  external command, so neither the project generator nor the build driver; its error is
  \<^verbatim>\<open>Cannot find depot_tools!\<close> whenever the flags file has been read, that is, whenever
  the steps that come before the check have succeeded.
\<close>

theorem depot_tools_preflight:
  assumes "(\<forall>n. \<not> os_path_exists w n (os_path_join (os_getcwd w) [''depot_tools''])) \<or>
           (\<forall>n. \<not> os_path_isdir w n (os_path_join (os_getcwd w) [''depot_tools'']))"
  shows "fst (sync M w cfg n) = Inl (FileNotFoundError ''Cannot find depot_tools!'') \<and>
         (\<forall>e\<in>set (snd (sync M w cfg n)). command_of e = None) \<and>
         isl (fst (build M w cfg n)) \<and>
         (\<forall>e\<in>set (snd (build M w cfg n)). command_of e = None) \<and>
         ((\<exists>e\<in>set (snd (build M w cfg n)). read_ok e) \<longrightarrow>
            fst (build M w cfg n) = Inl (FileNotFoundError ''Cannot find depot_tools!''))"
  using sync_missing_emits[OF assms, of M cfg n] build_missing_emits[OF assms, of M cfg n]
  by (simp add: emits_def)

lemma build_fresh_dir_example:
  "build M0 world_fresh_dir cfg0 0 =
     (Inl (OSError ''[Errno 2] No such file or directory''),
      [PathExists ''src/out/Release_linux_x64'' False,
       Makedirs ''src/out/Release_linux_x64'' None,
       ReadLines ''ungoogled-chromium/flags.gn'' (Inl ''[Errno 2] No such file or directory'')])"
  by (simp add: build_def make_output_folder_def output_src_path_def output_subfolder_def
        os_path_join_def join2_def prog_defs M0_def world_fresh_dir_def world0_def cfg0_def)

text \<open>
  In a fresh directory there is no \<^verbatim>\<open>depot_tools\<close>, and no \<^verbatim>\<open>ungoogled-chromium/flags.gn\<close>
  either: \<^verbatim>\<open>build\<close> ends in the error of reading the flags file, before it looks for
  \<^verbatim>\<open>depot_tools\<close>.
\<close>

theorem build_other_error_counterexample:
  "\<not> os_path_exists world_fresh_dir 3 (os_path_join (os_getcwd world_fresh_dir) [''depot_tools'']) \<and>
   fst (build M0 world_fresh_dir cfg0 0) = Inl (OSError ''[Errno 2] No such file or directory'') \<and>
   fst (build M0 world_fresh_dir cfg0 0) \<noteq> Inl (FileNotFoundError ''Cannot find depot_tools!'')"
  by (simp add: build_fresh_dir_example) (simp add: world_fresh_dir_def)

lemma build_no_depot_tools_example:
  "snd (build M0 world_no_depot_tools cfg0 0) =
      [PathExists ''src/out/Release_linux_x64'' True,
       PathIsdir ''src/out/Release_linux_x64'' True,
       Makedirs ''src/out/Release_linux_x64'' None,
       ReadLines ''ungoogled-chromium/flags.gn'' (Inr []),
       PathExists ''/work/depot_tools'' False]"
  by (simp add: build_def make_output_folder_def output_src_path_def output_subfolder_def
        depot_tools_missing_def
        os_path_join_def join2_def prog_defs M0_def world_no_depot_tools_def world0_def cfg0_def)

theorem depot_tools_preflight_witness:
  "fst (sync M0 world_no_depot_tools cfg0 0) = Inl (FileNotFoundError ''Cannot find depot_tools!'') \<and>
   read_ok (snd (build M0 world_no_depot_tools cfg0 0) ! 3) \<and>
   fst (build M0 world_no_depot_tools cfg0 0) = Inl (FileNotFoundError ''Cannot find depot_tools!'')"
proof -
  have h: "(\<forall>n. \<not> os_path_exists world_no_depot_tools n
                   (os_path_join (os_getcwd world_no_depot_tools) [''depot_tools''])) \<or>
           (\<forall>n. \<not> os_path_isdir world_no_depot_tools n
                   (os_path_join (os_getcwd world_no_depot_tools) [''depot_tools'']))"
    by (simp add: world_no_depot_tools_def world0_def os_path_join_def join2_def)
  have r: "read_ok (snd (build M0 world_no_depot_tools cfg0 0) ! 3)"
    by (simp add: build_no_depot_tools_example)
  have "snd (build M0 world_no_depot_tools cfg0 0) ! 3 \<in> set (snd (build M0 world_no_depot_tools cfg0 0))"
    by (simp add: build_no_depot_tools_example)
  with r have "\<exists>e\<in>set (snd (build M0 world_no_depot_tools cfg0 0)). read_ok e" by blast
  with depot_tools_preflight[OF h, of M0 cfg0 0] r show ?thesis by blast
qed

section \<open>build: a target OS without targets\<close>

lemma bootstrap_not_autoninja:
  "os_path_join s [''tools'', ''gn'', ''bootstrap'', ''bootstrap.py''] \<noteq> ''autoninja''"
proof -
  have "\<exists>x. os_path_join s [''tools'', ''gn'', ''bootstrap'', ''bootstrap.py''] = x @ ''bootstrap.py''"
    by (simp add: os_path_join_def join2_def)
  then obtain x where "os_path_join s [''tools'', ''gn'', ''bootstrap'', ''bootstrap.py''] = x @ ''bootstrap.py''" ..
  then have "last (os_path_join s [''tools'', ''gn'', ''bootstrap'', ''bootstrap.py'']) = CHR ''y''"
    by simp
  then show ?thesis by auto
qed

lemma build_unsupported_emits:
  assumes "target_os cfg \<noteq> ''linux''" and "target_os cfg \<noteq> ''android''"
  shows "emits (build M w cfg) n (\<lambda>r t.
           isl r \<and> (\<forall>e\<in>set t. \<not> is_build_driver e) \<and>
           (r = Inl (AttributeError ''Target OS not supported'') \<longrightarrow>
              Makedirs (output_src_path M cfg) None \<in> set t \<and> (\<exists>e\<in>set t. is_generator M e)))"
  using assms
  unfolding build_def make_output_folder_def depot_tools_missing_def run_gn_def Let_def
  by (auto intro!: emits_rules
        simp: is_build_driver_def is_generator_def program_of_def bootstrap_not_autoninja)

lemma build_win_example:
  "fst (build M0 world0 (cfg0\<lparr>target_os := ''win''\<rparr>) 0) =
     Inl (AttributeError ''Target OS not supported'')"
  by (simp add: build_def make_output_folder_def depot_tools_missing_def depot_tools_env_def
          run_gn_def prog_defs world0_def cfg0_def Let_def split: prod.splits)

text \<open>
  Claim C9. With a target OS other than \<^verbatim>\<open>linux\<close> and \<^verbatim>\<open>android\<close>, every run of
  \<^verbatim>\<open>build\<close> ends in an error and never starts the build driver \<^verbatim>\<open>autoninja\<close>; and when
  the error is \<^verbatim>\<open>Target OS not supported\<close>, the run holds the successful creation of the
  output directory and the call of the project generator: both were done before the
  error was raised.
\<close>

theorem build_unsupported_os:
  assumes "target_os cfg \<noteq> ''linux''" and "target_os cfg \<noteq> ''android''"
    and "build M w cfg n = (r, t)"
  shows "isl r \<and> (\<forall>e\<in>set t. \<not> is_build_driver e) \<and>
         (r = Inl (AttributeError ''Target OS not supported'') \<longrightarrow>
            Makedirs (output_src_path M cfg) None \<in> set t \<and> (\<exists>e\<in>set t. is_generator M e))"
  using emitsD[OF build_unsupported_emits[OF assms(1,2)] assms(3)] .

theorem build_unsupported_os_witness:
  "target_os (cfg0\<lparr>target_os := ''win''\<rparr>) \<noteq> ''linux'' \<and>
   target_os (cfg0\<lparr>target_os := ''win''\<rparr>) \<noteq> ''android'' \<and>
   fst (build M0 world0 (cfg0\<lparr>target_os := ''win''\<rparr>) 0) =
     Inl (AttributeError ''Target OS not supported'') \<and>
   Makedirs (output_src_path M0 (cfg0\<lparr>target_os := ''win''\<rparr>)) None
     \<in> set (snd (build M0 world0 (cfg0\<lparr>target_os := ''win''\<rparr>) 0))"
proof -
  let ?cfg = "cfg0\<lparr>target_os := ''win''\<rparr>"
  have os: "target_os ?cfg \<noteq> ''linux''" "target_os ?cfg \<noteq> ''android''"
    by simp_all
  have run: "build M0 world0 ?cfg 0 = (fst (build M0 world0 ?cfg 0), snd (build M0 world0 ?cfg 0))"
    by simp
  from build_unsupported_os[OF os run] build_win_example os show ?thesis by simp
qed

section \<open>str.replace on a template with one placeholder\<close>

lemma replace_from_skip:
  "skip \<le> length s \<Longrightarrow> replace_from old new skip s = replace_from old new 0 (drop skip s)"
proof (induction s arbitrary: skip)
  case Nil
  then show ?case by simp
next
  case (Cons c s)
  show ?case
  proof (cases skip)
    case 0
    then show ?thesis by simp
  next
    case (Suc k)
    with Cons.prems have "k \<le> length s" by simp
    from Cons.IH[OF this] Suc show ?thesis by simp
  qed
qed

lemma replace_from_absent:
  "old \<noteq> [] \<Longrightarrow> hd old \<notin> set pre \<Longrightarrow>
   replace_from old new 0 (pre @ s) = pre @ replace_from old new 0 s"
proof (induction pre)
  case Nil
  then show ?case by simp
next
  case (Cons c pre)
  from Cons.prems have "take (length old) (c # pre @ s) \<noteq> old"
    by (cases old) auto
  moreover from Cons have "replace_from old new 0 (pre @ s) = pre @ replace_from old new 0 s"
    by simp
  ultimately show ?case by (simp del: take_Suc_Cons)
qed


lemma replace_from_match:
  assumes "old \<noteq> []"
  shows "replace_from old new 0 (old @ s) = new @ replace_from old new 0 s"
proof -
  from assms obtain c cs where old: "old = c # cs" by (cases old) auto
  have "replace_from (c # cs) new 0 (c # (cs @ s)) =
          new @ replace_from (c # cs) new (length cs) (cs @ s)"
    by (subst replace_from.simps) simp
  also have "replace_from (c # cs) new (length cs) (cs @ s) = replace_from (c # cs) new 0 s"
    by (subst replace_from_skip) simp_all
  finally show ?thesis by (simp add: old)
qed

lemma str_replace_once:
  assumes "old \<noteq> []" and "hd old \<notin> set pre" and "hd old \<notin> set post"
  shows "str_replace (pre @ old @ post) old new = pre @ new @ post"
proof -
  have "replace_from old new 0 post = post"
    using replace_from_absent[OF assms(1,3), of new "[]"] by simp
  then show ?thesis
    by (simp only: str_replace_def assms(1) if_False replace_from_absent[OF assms(1,2)]
          replace_from_match[OF assms(1)])
qed

section \<open>sync: the client manifest\<close>

lemma sync_emits:
  "emits (sync M w cfg) n (\<lambda>r t.
     after_some (\<lambda>e. e = WriteFile ''.gclient'' (gclient_content M cfg) None)
       (\<lambda>e. program_of e = Some ''gclient'') t \<and>
     (\<forall>e\<in>set t. case e of WriteFile p c res \<Rightarrow> p = ''.gclient'' \<and> c = gclient_content M cfg
                      | _ \<Rightarrow> True) \<and>
     (r = Inr () \<longrightarrow> WriteFile ''.gclient'' (gclient_content M cfg) None \<in> set t))"
  unfolding sync_def depot_tools_missing_def set_revision_def update_to_version_def
    git_in_src_def install_deps_def Let_def
  by (auto intro!: emits_rules simp: program_of_def)


text \<open>
  Claim C6. In every run of \<^verbatim>\<open>sync\<close>: a \<^verbatim>\<open>gclient\<close> process comes only after the
  successful write of the file \<^verbatim>\<open>.gclient\<close> with the manifest content; \<^verbatim>\<open>sync\<close> writes
  no other file and no other content; a run that returns has written it. The content is
  the template \<^verbatim>\<open>GCLIENT_CONFIG\<close> with \<^verbatim>\<open>@@TARGET_OS@@\<close> replaced by the target OS in
  single quotes: for a template that holds the placeholder once and no other \<^verbatim>\<open>@\<close>, it
  is the text before the placeholder, the quoted target OS, and the text after it.
\<close>

theorem sync_writes_gclient:
  assumes "sync M w cfg n = (r, t)"
  shows "(\<forall>j<length t. program_of (t ! j) = Some ''gclient'' \<longrightarrow>
            (\<exists>i<j. t ! i = WriteFile ''.gclient'' (gclient_content M cfg) None)) \<and>
         (\<forall>p c res. WriteFile p c res \<in> set t \<longrightarrow> p = ''.gclient'' \<and> c = gclient_content M cfg) \<and>
         (r = Inr () \<longrightarrow> WriteFile ''.gclient'' (gclient_content M cfg) None \<in> set t) \<and>
         gclient_content M cfg =
           str_replace (GCLIENT_CONFIG M) ''@@TARGET_OS@@'' (CHR 0x27 # target_os cfg @ [CHR 0x27]) \<and>
         (\<forall>pre post. GCLIENT_CONFIG M = pre @ ''@@TARGET_OS@@'' @ post \<and>
                     CHR ''@'' \<notin> set pre \<and> CHR ''@'' \<notin> set post \<longrightarrow>
            gclient_content M cfg = pre @ CHR 0x27 # target_os cfg @ CHR 0x27 # post)"
proof -
  note run = emitsD[OF sync_emits assms]
  from run have a: "after_some (\<lambda>e. e = WriteFile ''.gclient'' (gclient_content M cfg) None)
       (\<lambda>e. program_of e = Some ''gclient'') t" by simp
  have 1: "\<exists>i<j. t ! i = WriteFile ''.gclient'' (gclient_content M cfg) None"
    if "j < length t" "program_of (t ! j) = Some ''gclient''" for j
    by (rule after_someD[OF a that]) (simp add: program_of_def)
  from run have b: "\<forall>e\<in>set t. case e of
      WriteFile p c res \<Rightarrow> p = ''.gclient'' \<and> c = gclient_content M cfg | _ \<Rightarrow> True" by simp
  have 2: "p = ''.gclient'' \<and> c = gclient_content M cfg" if "WriteFile p c res \<in> set t" for p c res
    using b that by fastforce
  from run have 3: "r = Inr () \<longrightarrow> WriteFile ''.gclient'' (gclient_content M cfg) None \<in> set t"
    by simp
  have 4: "gclient_content M cfg =
           str_replace (GCLIENT_CONFIG M) ''@@TARGET_OS@@'' (CHR 0x27 # target_os cfg @ [CHR 0x27])"
    by (simp add: gclient_content_def squote_def)
  have 5: "gclient_content M cfg = pre @ CHR 0x27 # target_os cfg @ CHR 0x27 # post"
    if "GCLIENT_CONFIG M = pre @ ''@@TARGET_OS@@'' @ post" "CHR ''@'' \<notin> set pre" "CHR ''@'' \<notin> set post"
    for pre post
  proof -
    have "str_replace (pre @ ''@@TARGET_OS@@'' @ post) ''@@TARGET_OS@@'' (squote (target_os cfg)) =
            pre @ squote (target_os cfg) @ post"
      by (rule str_replace_once) (use that in simp_all)
    then show ?thesis
      by (simp add: gclient_content_def that(1) squote_def)
  qed
  from 1 2 3 4 5 show ?thesis by blast
qed

lemma sync_example: "fst (sync M0 world0 cfg0 0) = Inr ()"
  by (simp add: sync_def depot_tools_missing_def depot_tools_env_def set_revision_def
        update_to_version_def git_in_src_def when_do_def
        prog_defs world0_def cfg0_def M0_def strip_def Let_def split: prod.splits)

theorem sync_writes_gclient_witness:
  "fst (sync M0 world0 cfg0 0) = Inr () \<and>
   WriteFile ''.gclient'' (''target_os = ['' @ CHR 0x27 # ''linux'' @ CHR 0x27 # '']'') None
     \<in> set (snd (sync M0 world0 cfg0 0))"
proof -
  have run: "sync M0 world0 cfg0 0 = (Inr (), snd (sync M0 world0 cfg0 0))"
    using sync_example by (simp add: prod_eq_iff)
  note th = sync_writes_gclient[OF run]
  have tpl: "GCLIENT_CONFIG M0 = ''target_os = ['' @ ''@@TARGET_OS@@'' @ '']'' \<and>
             CHR ''@'' \<notin> set ''target_os = ['' \<and> CHR ''@'' \<notin> set '']''"
    by (simp add: M0_def)
  with th have "gclient_content M0 cfg0 = ''target_os = ['' @ CHR 0x27 # target_os cfg0 @ CHR 0x27 # '']''"
    by blast
  then have c: "gclient_content M0 cfg0 = ''target_os = ['' @ CHR 0x27 # ''linux'' @ CHR 0x27 # '']''"
    by (simp add: cfg0_def)
  from th have "WriteFile ''.gclient'' (gclient_content M0 cfg0) None \<in> set (snd (sync M0 world0 cfg0 0))"
    by blast
  with c sync_example show ?thesis by simp
qed

section \<open>prepare: cache, scripts and list files\<close>

lemma each_afterD:
  "each_after R p2 p1 t \<Longrightarrow> j < length t \<Longrightarrow>
   R ((p2 # p1 # map Some t) ! j) ((p2 # p1 # map Some t) ! Suc j) (t ! j)"
proof (induction t arbitrary: p2 p1 j)
  case Nil
  then show ?case by simp
next
  case (Cons e es)
  show ?case
  proof (cases j)
    case 0
    with Cons.prems show ?thesis by simp
  next
    case (Suc k)
    with Cons.prems have "each_after R p1 (Some e) es" "k < length es" by simp_all
    from Cons.IH[OF this] Suc show ?thesis by simp
  qed
qed

lemma prepare_emits:
  "emits (prepare M w cfg) n (\<lambda>r t.
     each_after prepare_step None None t \<and>
     take (length (scripts_run t)) (if target_os cfg = ''android'' then scripts @ scripts else scripts)
       = scripts_run t)"
  unfolding prepare_def prepare_android_checkout_def prepare_android_scripts_def remove_cache_def
    prune_binaries_def apply_patches_def domain_substitution_def
  by (auto intro!: emits_rules
        simp: prepare_step_def script_of_def program_of_def utils_dir_def os_path_join_def join2_def
          scripts_def scripts_run_def List.map_filter_simps)


lemma prepare_returns_emits:
  "emits (prepare M w cfg) n (\<lambda>r t.
     r = Inr () \<longrightarrow>
       scripts_run t = (if target_os cfg = ''android'' then scripts @ scripts else scripts))"
  unfolding prepare_def prepare_android_checkout_def prepare_android_scripts_def remove_cache_def
    prune_binaries_def apply_patches_def domain_substitution_def
  by (auto intro!: emits_rules
        simp: script_of_def program_of_def utils_dir_def os_path_join_def join2_def
          scripts_def scripts_run_def List.map_filter_simps)

text \<open>
  Claim C7. In every run of \<^verbatim>\<open>prepare\<close>: two events before each start of the pruning
  script, the cache file \<^verbatim>\<open>domsubcache.tar.gz\<close> was found absent or was removed; the
  scripts started are, in order, a beginning of pruning, patches, domain substitution
  (twice that sequence for Android), and all of it when the run returns; and each pruning
  and each domain substitution command comes right after a successful
  \<^verbatim>\<open>filter_list_file\<close> and has the file it answered as its list file.
\<close>

theorem prepare_order:
  assumes "prepare M w cfg n = (r, t)"
  shows "(\<forall>j<length t. script_of (t ! j) = Some ''prune_binaries.py'' \<longrightarrow>
            2 \<le> j \<and> (t ! (j - 2) = PathExists ''domsubcache.tar.gz'' False \<or>
                      t ! (j - 2) = Remove ''domsubcache.tar.gz'' None)) \<and>
         take (length (scripts_run t)) (if target_os cfg = ''android'' then scripts @ scripts else scripts)
           = scripts_run t \<and>
         (r = Inr () \<longrightarrow>
            scripts_run t = (if target_os cfg = ''android'' then scripts @ scripts else scripts)) \<and>
         (\<forall>j<length t. script_of (t ! j) = Some ''prune_binaries.py'' \<or>
                        script_of (t ! j) = Some ''domain_substitution.py'' \<longrightarrow>
            1 \<le> j \<and> (\<exists>dir name ex f cmd. t ! (j - 1) = FilterListFile dir name ex (Inr f) \<and>
                        command_of (t ! j) = Some cmd \<and> list_file_arg cmd = Some f))"
proof -
  note run = emitsD[OF prepare_emits assms]
  from run have ea: "each_after prepare_step None None t" by simp
  from run have 2: "take (length (scripts_run t))
      (if target_os cfg = ''android'' then scripts @ scripts else scripts) = scripts_run t" by simp
  let ?xs = "None # None # map Some t"
  have 1: "2 \<le> j \<and> (t ! (j - 2) = PathExists ''domsubcache.tar.gz'' False \<or>
                      t ! (j - 2) = Remove ''domsubcache.tar.gz'' None)"
    if j: "j < length t" and s: "script_of (t ! j) = Some ''prune_binaries.py''" for j
  proof -
    from each_afterD[OF ea j] s
    have p: "?xs ! j = Some (PathExists ''domsubcache.tar.gz'' False) \<or>
             ?xs ! j = Some (Remove ''domsubcache.tar.gz'' None)"
      by (simp add: prepare_step_def)
    from p obtain k1 where k1: "j = Suc k1" by (cases j) auto
    from p k1 obtain k where k: "k1 = Suc k" by (cases k1) auto
    from j p k1 k show ?thesis by simp
  qed
  have 3: "1 \<le> j \<and> (\<exists>dir name ex f cmd. t ! (j - 1) = FilterListFile dir name ex (Inr f) \<and>
                        command_of (t ! j) = Some cmd \<and> list_file_arg cmd = Some f)"
    if j: "j < length t" and s: "script_of (t ! j) = Some ''prune_binaries.py'' \<or>
                        script_of (t ! j) = Some ''domain_substitution.py''" for j
  proof -
    let ?ys = "None # map Some t"
    from each_afterD[OF ea j] s
    have f: "filtered_file (?ys ! j) \<noteq> None"
      and c: "case command_of (t ! j) of None \<Rightarrow> False
              | Some cmd \<Rightarrow> list_file_arg cmd = filtered_file (?ys ! j)"
      by (auto simp: prepare_step_def)
    from f obtain k where k: "j = Suc k" by (cases j) auto
    with j have x: "?ys ! j = Some (t ! k)" by simp
    from f x obtain dir name ex fl where e: "t ! k = FilterListFile dir name ex (Inr fl)"
      by (cases "Some (t ! k)" rule: filtered_file.cases) auto
    from c x e obtain cmd where "command_of (t ! j) = Some cmd" "list_file_arg cmd = Some fl"
      by (auto split: option.splits)
    with e k show ?thesis by auto
  qed
  note 4 = emitsD[OF prepare_returns_emits assms]
  from 1 2 3 4 show ?thesis by blast
qed

theorem prepare_order_witness:
  "fst (prepare M0 world0 cfg0 0) = Inr () \<and>
   script_of (snd (prepare M0 world0 cfg0 0) ! 4) = Some ''prune_binaries.py'' \<and>
   (snd (prepare M0 world0 cfg0 0) ! (4 - 2) = PathExists ''domsubcache.tar.gz'' False \<or>
    snd (prepare M0 world0 cfg0 0) ! (4 - 2) = Remove ''domsubcache.tar.gz'' None) \<and>
   scripts_run (snd (prepare M0 world0 cfg0 0)) = scripts"
proof -
  let ?t = "snd (prepare M0 world0 cfg0 0)"
  have t: "?t =
     [GitMaybeCheckout ''https://github.com/Eloston/ungoogled-chromium.git''
        ''ungoogled-chromium'' (Some ''91.0.4472.164-1'') (Some True) None,
      PathExists ''domsubcache.tar.gz'' True,
      Remove ''domsubcache.tar.gz'' None,
      FilterListFile ''ungoogled-chromium'' ''pruning.list'' (Some [''buildtools/linux64/gn''])
        (Inr ''ungoogled-chromium/pruning.list.filtered''),
      Subprocess SpRun
        [''ungoogled-chromium/utils/prune_binaries.py'', ''src'',
         ''ungoogled-chromium/pruning.list.filtered'']
        None None (Exited 0 []),
      Subprocess CheckCall
        [''ungoogled-chromium/utils/patches.py'', ''apply'', ''src'', ''ungoogled-chromium/patches'']
        None None (Exited 0 []),
      FilterListFile ''ungoogled-chromium'' ''domain_substitution.list'' None
        (Inr ''ungoogled-chromium/domain_substitution.list.filtered''),
      Subprocess CheckCall
        [''ungoogled-chromium/utils/domain_substitution.py'', ''apply'', ''-r'',
         ''ungoogled-chromium/domain_regex.list'', ''-f'',
         ''ungoogled-chromium/domain_substitution.list.filtered'', ''-c'',
         ''domsubcache.tar.gz'', ''src'']
        None None (Exited 0 [])]"
    by (simp add: prepare_def remove_cache_def prune_binaries_def apply_patches_def
        domain_substitution_def utils_dir_def os_path_join_def join2_def
        prog_defs M0_def world0_def cfg0_def)
  have res: "fst (prepare M0 world0 cfg0 0) = Inr ()"
    by (simp add: prepare_def remove_cache_def prune_binaries_def apply_patches_def
        domain_substitution_def utils_dir_def os_path_join_def join2_def
        prog_defs M0_def world0_def cfg0_def)
  then have run: "prepare M0 world0 cfg0 0 = (Inr (), ?t)"
    by (simp add: prod_eq_iff)
  have len: "4 < length ?t" by (simp add: t)
  have s: "script_of (?t ! 4) = Some ''prune_binaries.py''"
    by (simp add: t script_of_def program_of_def utils_dir_def os_path_join_def join2_def scripts_def)
  have os: "target_os cfg0 \<noteq> ''android''" by (simp add: cfg0_def)
  note th = prepare_order[OF run]
  from th len s
  have a: "?t ! (4 - 2) = PathExists ''domsubcache.tar.gz'' False \<or>
           ?t ! (4 - 2) = Remove ''domsubcache.tar.gz'' None"
    by blast
  from th have "scripts_run ?t = (if target_os cfg0 = ''android'' then scripts @ scripts else scripts)"
    by blast
  with os have b: "scripts_run ?t = scripts"
    by simp
  from res s a b show ?thesis by blast
qed

section \<open>build: the arguments handed to the generator\<close>









end
